theory Spec2Isabelle
  imports Main "HOL-Library.Word"
begin

section \<open>Strings\<close>

text \<open>
  A JavaScript string is a sequence of UTF-16 code units. The literals of
  \<^verbatim>\<open>script.js\<close> are ASCII apart from the degree sign (U+00B0) and the em dash
  (U+2014); \<open>lit\<close> embeds an ASCII literal.
\<close>

type_synonym jsstring = "16 word list"

definition lit :: "string \<Rightarrow> jsstring" where
  "lit s = map (\<lambda>c. of_nat (of_char c)) s"

section \<open>Weather code interpretation\<close>

text \<open>
  \<^verbatim>\<open>const weatherCodeMap = { 0: 'Clear sky', ..., 99: 'Thunderstorm with heavy hail' }\<close>:
  the object literal, one pair for each property in the order written. An integer
  code reads the property whose key is that integer.
\<close>

definition weatherCodeMap :: "(int \<times> jsstring) list" where
  "weatherCodeMap =
    [(0, lit ''Clear sky''),
     (1, lit ''Mainly clear''),
     (2, lit ''Partly cloudy''),
     (3, lit ''Overcast''),
     (45, lit ''Fog''),
     (48, lit ''Depositing rime fog''),
     (51, lit ''Light drizzle''),
     (53, lit ''Moderate drizzle''),
     (55, lit ''Dense drizzle''),
     (56, lit ''Light freezing drizzle''),
     (57, lit ''Dense freezing drizzle''),
     (61, lit ''Slight rain''),
     (63, lit ''Moderate rain''),
     (65, lit ''Heavy rain''),
     (66, lit ''Light freezing rain''),
     (67, lit ''Heavy freezing rain''),
     (71, lit ''Slight snowfall''),
     (73, lit ''Moderate snowfall''),
     (75, lit ''Heavy snowfall''),
     (77, lit ''Snow grains''),
     (80, lit ''Slight rain showers''),
     (81, lit ''Moderate rain showers''),
     (82, lit ''Violent rain showers''),
     (85, lit ''Slight snow showers''),
     (86, lit ''Heavy snow showers''),
     (95, lit ''Thunderstorm''),
     (96, lit ''Thunderstorm with slight hail''),
     (99, lit ''Thunderstorm with heavy hail'')]"

text \<open>
  \<^verbatim>\<open>return weatherCodeMap[code] || 'Unknown conditions';\<close>
  The left operand of \<open>||\<close> is taken when it is truthy: a missing property reads as
  \<open>undefined\<close>, and an empty string is falsy as well.
\<close>

definition interpretWeatherCode :: "int \<Rightarrow> jsstring" where
  "interpretWeatherCode code =
     (case map_of weatherCodeMap code of
        None \<Rightarrow> lit ''Unknown conditions''
      | Some description \<Rightarrow>
          if description = [] then lit ''Unknown conditions'' else description)"

section \<open>Completions, promises and the page\<close>

text \<open>
  What can be thrown: an \<open>Error\<close> the script itself makes, the \<open>TypeError\<close> of a
  property access on \<open>null\<close> or \<open>undefined\<close>, and a value thrown or rejected by an
  external collaborator (the network, the document store, the calendar client).
\<close>

datatype exn = Error jsstring | TypeError | Failure jsstring

text \<open>The outcome of an awaited external call, given to the model as an input.\<close>

datatype 'a promise = Resolved 'a | Rejected exn

datatype log_entry = ConsoleWarn jsstring exn | ConsoleError jsstring exn

datatype firebaseApp = FirebaseApp
datatype firestore = Firestore
datatype colref = Collection firestore jsstring
datatype docref = Doc firestore jsstring jsstring

record note_data =
  noteText :: jsstring

record docSnap =
  docId :: jsstring
  docData :: note_data

record events_query =
  calendarId :: jsstring
  timeMin :: jsstring
  showDeleted :: bool
  singleEvents :: bool
  maxResults :: nat
  orderBy :: jsstring

record client_config =
  apiKey :: jsstring
  clientId :: jsstring
  discoveryDocs :: "jsstring list"
  scope :: jsstring

text \<open>The calls the script makes on its external collaborators, in the order made.\<close>

datatype request =
    HttpGet jsstring
  | AddDoc colref note_data
  | DeleteDoc docref
  | ClientInit client_config
  | SignIn
  | SignOut
  | EventsList events_query

text \<open>
  The click handlers the script attaches, each with what its closure captures:
  the save handler of \<open>initNotes\<close> holds \<open>notesCol\<close>, the delete handler of
  \<open>renderNotes\<close> holds \<open>docSnap.id\<close>.
\<close>

datatype handler =
    SaveNoteClick colref
  | DeleteNoteClick jsstring
  | HandleAuthClick
  | HandleSignoutClick

record button =
  label :: jsstring
  onClick :: handler

record li =
  li_text :: jsstring
  li_buttons :: "button list"

text \<open>
  An element of the hosting page, with the properties the script reads or writes:
  \<open>textContent\<close>, \<open>value\<close>, \<open>disabled\<close>, \<open>style.display\<close>, the \<open>li\<close> children of a
  list, the listeners added with \<open>addEventListener('click', ...)\<close> and the \<open>onclick\<close>
  property.
\<close>

record element =
  textContent :: jsstring
  val :: jsstring
  disabled :: bool
  display :: jsstring
  children :: "li list"
  clickListeners :: "handler list"
  onclick :: "handler option"

text \<open>
  The state the script runs on: the global \<open>db\<close> (\<open>None\<close> while it is \<open>undefined\<close>),
  the document as a map from element id to element (\<open>getElementById\<close> gives \<open>null\<close> for
  an id that is not there), the console, the external calls made, the assignments to
  \<open>textContent\<close> in the order made, the listeners registered with \<open>onSnapshot\<close> and with
  \<open>isSignedIn.listen\<close>, and the errors that reached no handler.
\<close>

record world =
  db :: "firestore option"
  elems :: "jsstring \<rightharpoonup> element"
  console :: "log_entry list"
  requests :: "request list"
  textWrites :: "(jsstring \<times> jsstring) list"
  subscriptions :: "colref list"
  signinListeners :: nat
  uncaught :: "exn list"

text \<open>
  How a piece of code ends: it returns, or it throws (an exception, or the rejection of
  the promise an \<open>async\<close> function returns), in the state reached by then.
\<close>

datatype result = Returned world | Threw exn world

definition andThen :: "result \<Rightarrow> (world \<Rightarrow> result) \<Rightarrow> result" where
  "andThen r f = (case r of Returned w \<Rightarrow> f w | Threw e w \<Rightarrow> Threw e w)"

text \<open>\<^verbatim>\<open>try { ... } catch (e) { ... }\<close>, and \<^verbatim>\<open>promise.then(...).catch(...)\<close>.\<close>

definition tryCatch :: "result \<Rightarrow> (exn \<Rightarrow> world \<Rightarrow> result) \<Rightarrow> result" where
  "tryCatch r h = (case r of Returned w \<Rightarrow> Returned w | Threw e w \<Rightarrow> h e w)"

definition consoleError :: "jsstring \<Rightarrow> exn \<Rightarrow> world \<Rightarrow> world" where
  "consoleError msg e w = w\<lparr>console := console w @ [ConsoleError msg e]\<rparr>"

definition consoleWarn :: "jsstring \<Rightarrow> exn \<Rightarrow> world \<Rightarrow> world" where
  "consoleWarn msg e w = w\<lparr>console := console w @ [ConsoleWarn msg e]\<rparr>"

definition call :: "request \<Rightarrow> world \<Rightarrow> world" where
  "call r w = w\<lparr>requests := requests w @ [r]\<rparr>"

text \<open>
  \<^verbatim>\<open>document.getElementById(elemId).textContent = s\<close>: a \<open>TypeError\<close> when the element is
  missing; otherwise the element's content becomes the text \<open>s\<close> alone.
\<close>

definition setTextContent :: "jsstring \<Rightarrow> jsstring \<Rightarrow> world \<Rightarrow> result" where
  "setTextContent elemId s w =
     (case elems w elemId of
        None \<Rightarrow> Threw TypeError w
      | Some e \<Rightarrow>
          Returned (w\<lparr>elems := (elems w)(elemId \<mapsto> e\<lparr>textContent := s, children := []\<rparr>),
                      textWrites := textWrites w @ [(elemId, s)]\<rparr>))"

text \<open>\<^verbatim>\<open>element.innerHTML = ''\<close>\<close>

definition clearInnerHTML :: "jsstring \<Rightarrow> world \<Rightarrow> result" where
  "clearInnerHTML elemId w =
     (case elems w elemId of
        None \<Rightarrow> Threw TypeError w
      | Some e \<Rightarrow>
          Returned (w\<lparr>elems := (elems w)(elemId \<mapsto> e\<lparr>textContent := [], children := []\<rparr>)\<rparr>))"

text \<open>\<^verbatim>\<open>element.appendChild(li)\<close>\<close>

definition appendChild :: "jsstring \<Rightarrow> li \<Rightarrow> world \<Rightarrow> result" where
  "appendChild elemId item w =
     (case elems w elemId of
        None \<Rightarrow> Threw TypeError w
      | Some e \<Rightarrow>
          Returned (w\<lparr>elems := (elems w)(elemId \<mapsto> e\<lparr>children := children e @ [item]\<rparr>)\<rparr>))"

text \<open>\<^verbatim>\<open>element.style.display = v\<close>\<close>

definition setDisplay :: "jsstring \<Rightarrow> jsstring \<Rightarrow> world \<Rightarrow> result" where
  "setDisplay elemId v w =
     (case elems w elemId of
        None \<Rightarrow> Threw TypeError w
      | Some e \<Rightarrow> Returned (w\<lparr>elems := (elems w)(elemId \<mapsto> e\<lparr>display := v\<rparr>)\<rparr>))"

text \<open>\<^verbatim>\<open>document.getElementById(elemId).onclick = h\<close>\<close>

definition setOnclick :: "jsstring \<Rightarrow> handler \<Rightarrow> world \<Rightarrow> result" where
  "setOnclick elemId h w =
     (case elems w elemId of
        None \<Rightarrow> Threw TypeError w
      | Some e \<Rightarrow> Returned (w\<lparr>elems := (elems w)(elemId \<mapsto> e\<lparr>onclick := Some h\<rparr>)\<rparr>))"

section \<open>Firebase initialisation\<close>

text \<open>
  \<^verbatim>\<open>
  let db;
  try {
    const app = initializeApp(firebaseConfig);
    db = getFirestore(app);
  } catch (err) {
    console.warn('Firebase could not be initialized. ...\n', err);
  }
  \<close>
  The two calls return or throw as the library decides: their outcomes are inputs.
\<close>

definition initFirebase :: "exn + firebaseApp \<Rightarrow> exn + firestore \<Rightarrow> world \<Rightarrow> result" where
  "initFirebase appOutcome dbOutcome w =
     tryCatch
       (case appOutcome of
          Inl e \<Rightarrow> Threw e w
        | Inr app \<Rightarrow>
            (case dbOutcome of
               Inl e \<Rightarrow> Threw e w
             | Inr d \<Rightarrow> Returned (w\<lparr>db := Some d\<rparr>)))
       (\<lambda>err w'. Returned (consoleWarn
          (lit ''Firebase could not be initialized. Please provide your own configuration.'' @ [0xA])
          err w'))"

section \<open>Weather fetcher\<close>

text \<open>
  The JSON of the weather endpoint, at the shape the script reads: \<open>data.current_weather\<close>
  (\<open>None\<close> when the field is absent or \<open>null\<close>, which \<open>!current\<close> takes alike), with a
  numeric \<open>temperature\<close> and an integer \<open>weathercode\<close>. Numbers are doubles; their type
  \<open>'n\<close> and the text \<open>numToString\<close> that a template literal gives them belong to the
  runtime and are parameters.

  What \<open>response.json()\<close> resolves to is either the JSON value \<open>null\<close>, on which reading
  \<open>data.current_weather\<close> throws a \<open>TypeError\<close>, or any other value, on which the read
  gives the field or \<open>undefined\<close>.
\<close>

record 'n current_conditions =
  temperature :: 'n
  weathercode :: int

record 'n forecast =
  current_weather :: "'n current_conditions option"

datatype 'n body = JsonNull | JsonData "'n forecast"

record 'n response =
  ok :: bool
  json :: "'n body promise"

definition weatherUrl :: "('n \<Rightarrow> jsstring) \<Rightarrow> 'n \<Rightarrow> 'n \<Rightarrow> jsstring" where
  "weatherUrl numToString lat lon =
     lit ''https://api.open-meteo.com/v1/forecast?latitude='' @ numToString lat
     @ lit ''&longitude='' @ numToString lon
     @ lit ''&current_weather=true&timezone=America/New_York''"

text \<open>The body of the \<open>try\<close> block of \<open>fetchWeather\<close>.\<close>

definition fetchWeather_body ::
  "('n \<Rightarrow> jsstring) \<Rightarrow> 'n \<Rightarrow> 'n \<Rightarrow> jsstring \<Rightarrow> jsstring \<Rightarrow> 'n response promise \<Rightarrow> world \<Rightarrow> result" where
  "fetchWeather_body numToString lat lon tempElemId descElemId outcome w =
     (let w1 = call (HttpGet (weatherUrl numToString lat lon)) w in
      case outcome of
        Rejected e \<Rightarrow> Threw e w1
      | Resolved response \<Rightarrow>
          if \<not> ok response then Threw (Error (lit ''Weather request failed'')) w1
          else
            (case json response of
               Rejected e \<Rightarrow> Threw e w1
             | Resolved JsonNull \<Rightarrow> Threw TypeError w1
             | Resolved (JsonData data) \<Rightarrow>
                 (case current_weather data of
                    None \<Rightarrow>
                      andThen (setTextContent tempElemId (lit ''No data available'') w1)
                        (setTextContent descElemId [])
                  | Some current \<Rightarrow>
                      andThen
                        (setTextContent tempElemId
                           (numToString (temperature current) @ [0xB0] @ lit ''C'') w1)
                        (setTextContent descElemId
                           (interpretWeatherCode (weathercode current))))))"

text \<open>
  \<^verbatim>\<open>
  async function fetchWeather(lat, lon, tempElemId, descElemId) {
    try { ... } catch (error) {
      console.error('Error fetching weather:', error);
      document.getElementById(tempElemId).textContent = 'Error fetching weather';
      document.getElementById(descElemId).textContent = '';
    }
  }
  \<close>
\<close>

definition fetchWeather ::
  "('n \<Rightarrow> jsstring) \<Rightarrow> 'n \<Rightarrow> 'n \<Rightarrow> jsstring \<Rightarrow> jsstring \<Rightarrow> 'n response promise \<Rightarrow> world \<Rightarrow> result" where
  "fetchWeather numToString lat lon tempElemId descElemId outcome w =
     tryCatch (fetchWeather_body numToString lat lon tempElemId descElemId outcome w)
       (\<lambda>error w'.
          andThen
            (setTextContent tempElemId (lit ''Error fetching weather'')
               (consoleError (lit ''Error fetching weather:'') error w'))
            (setTextContent descElemId []))"

section \<open>Notes\<close>

text \<open>
  \<open>String.prototype.trim\<close> removes white space and line terminators from both ends:
  TAB, LF, VT, FF, CR, SP, NBSP, the Unicode space separators, LS, PS and the byte
  order mark.
\<close>

definition isWhiteSpace :: "16 word \<Rightarrow> bool" where
  "isWhiteSpace c \<longleftrightarrow>
     c \<in> set [0x9, 0xA, 0xB, 0xC, 0xD, 0x20, 0xA0, 0x1680, 0x2028, 0x2029, 0x202F, 0x205F,
               0x3000, 0xFEFF]
     \<or> (0x2000 \<le> c \<and> c \<le> 0x200A)"

definition trim :: "jsstring \<Rightarrow> jsstring" where
  "trim s = rev (dropWhile isWhiteSpace (rev (dropWhile isWhiteSpace s)))"

text \<open>
  The body of \<^verbatim>\<open>snapshot.forEach((docSnap) => { ... })\<close> in \<open>renderNotes\<close>: one \<open>li\<close> with
  the document's text and a button labelled \<open>Delete\<close>, whose click listener deletes the
  document \<open>docSnap.id\<close>.
\<close>

definition noteItem :: "docSnap \<Rightarrow> li" where
  "noteItem d =
     \<lparr>li_text = noteText (docData d),
      li_buttons = [\<lparr>label = lit ''Delete'', onClick = DeleteNoteClick (docId d)\<rparr>]\<rparr>"

text \<open>The loop itself: the documents in the order the snapshot delivers them.\<close>

fun appendNotes :: "docSnap list \<Rightarrow> world \<Rightarrow> result" where
  "appendNotes [] w = Returned w"
| "appendNotes (d # ds) w = andThen (appendChild (lit ''notes-list'') (noteItem d) w) (appendNotes ds)"

text \<open>
  \<^verbatim>\<open>
  function renderNotes(snapshot) {
    const notesList = document.getElementById('notes-list');
    notesList.innerHTML = '';
    snapshot.forEach((docSnap) => { ... notesList.appendChild(li); });
  }
  \<close>
\<close>

definition renderNotes :: "docSnap list \<Rightarrow> world \<Rightarrow> result" where
  "renderNotes snapshot w = andThen (clearInnerHTML (lit ''notes-list'') w) (appendNotes snapshot)"

text \<open>
  The click listener of a delete button:
  \<^verbatim>\<open>
  async () => {
    try { await deleteDoc(doc(db, 'notes', docSnap.id)); }
    catch (e) { console.error('Error deleting note:', e); }
  }
  \<close>
  \<open>doc\<close> refuses a \<open>db\<close> that is \<open>undefined\<close>, inside the \<open>try\<close>.
\<close>

definition deleteNoteClick :: "jsstring \<Rightarrow> unit promise \<Rightarrow> world \<Rightarrow> result" where
  "deleteNoteClick noteId outcome w =
     tryCatch
       (case db w of
          None \<Rightarrow> Threw (Failure (lit ''invalid-argument'')) w
        | Some d \<Rightarrow>
            (let w1 = call (DeleteDoc (Doc d (lit ''notes'') noteId)) w in
             case outcome of
               Rejected e \<Rightarrow> Threw e w1
             | Resolved u \<Rightarrow> Returned w1))
       (\<lambda>e w'. Returned (consoleError (lit ''Error deleting note:'') e w'))"

text \<open>
  The click listener of the save button:
  \<^verbatim>\<open>
  async () => {
    const input = document.getElementById('note-input');
    const text = input.value.trim();
    if (!text) return;
    try {
      await addDoc(notesCol, { text });
      input.value = '';
    } catch (e) { console.error('Error adding note:', e); }
  }
  \<close>
  The handler is run to its end: what else happens on the page while \<open>addDoc\<close> is
  pending is not part of the model.
\<close>

definition saveNoteClick :: "colref \<Rightarrow> unit promise \<Rightarrow> world \<Rightarrow> result" where
  "saveNoteClick notesCol outcome w =
     (case elems w (lit ''note-input'') of
        None \<Rightarrow> Threw TypeError w
      | Some input \<Rightarrow>
          (let t = trim (val input) in
           if t = [] then Returned w
           else
             tryCatch
               (let w1 = call (AddDoc notesCol \<lparr>noteText = t\<rparr>) w in
                case outcome of
                  Rejected e \<Rightarrow> Threw e w1
                | Resolved u \<Rightarrow>
                    Returned (w1\<lparr>elems := (elems w1)(lit ''note-input'' \<mapsto> input\<lparr>val := []\<rparr>)\<rparr>))
               (\<lambda>e w'. Returned (consoleError (lit ''Error adding note:'') e w'))))"

text \<open>
  \<^verbatim>\<open>
  function initNotes() {
    if (!db) {
      const saveButton = document.getElementById('save-note');
      saveButton.disabled = true;
      saveButton.textContent = 'Notes unavailable';
      return;
    }
    const notesCol = collection(db, 'notes');
    onSnapshot(notesCol, (snapshot) => { renderNotes(snapshot); });
    document.getElementById('save-note').addEventListener('click', async () => { ... });
  }
  \<close>
\<close>

definition initNotes :: "world \<Rightarrow> result" where
  "initNotes w =
     (case db w of
        None \<Rightarrow>
          (case elems w (lit ''save-note'') of
             None \<Rightarrow> Threw TypeError w
           | Some saveButton \<Rightarrow>
               setTextContent (lit ''save-note'') (lit ''Notes unavailable'')
                 (w\<lparr>elems := (elems w)(lit ''save-note'' \<mapsto> saveButton\<lparr>disabled := True\<rparr>)\<rparr>))
      | Some d \<Rightarrow>
          (let notesCol = Collection d (lit ''notes'');
               w1 = w\<lparr>subscriptions := subscriptions w @ [notesCol]\<rparr>
           in case elems w1 (lit ''save-note'') of
                None \<Rightarrow> Threw TypeError w1
              | Some saveButton \<Rightarrow>
                  Returned (w1\<lparr>elems := (elems w1)(lit ''save-note'' \<mapsto>
                    saveButton\<lparr>clickListeners :=
                      clickListeners saveButton @ [SaveNoteClick notesCol]\<rparr>)\<rparr>)))"

section \<open>Google Calendar\<close>

text \<open>
  A calendar event, with the fields the script reads: \<open>event.start.dateTime\<close>,
  \<open>event.start.date\<close> (either may be absent) and \<open>event.summary\<close>; and the response of
  \<open>events.list\<close>, whose \<open>result.items\<close> may be absent.
\<close>

record event_start =
  dateTime :: "jsstring option"
  date :: "jsstring option"

record calendar_event =
  start :: event_start
  summary :: jsstring

record events_result =
  items :: "calendar_event list option"

record events_response =
  result :: events_result

text \<open>\<^verbatim>\<open>const when = event.start.dateTime || event.start.date;\<close>\<close>

definition eventWhen :: "calendar_event \<Rightarrow> jsstring option" where
  "eventWhen event =
     (case dateTime (start event) of
        None \<Rightarrow> date (start event)
      | Some s \<Rightarrow> if s = [] then date (start event) else Some s)"

text \<open>
  \<^verbatim>\<open>li.textContent = `${new Date(when).toLocaleString()} \<emdash> ${event.summary}`;\<close>
  (the separator is a space, the em dash U+2014 and a space). What
  \<open>new Date(when).toLocaleString()\<close> gives depends on the locale and the time zone of
  the browser: it is the parameter \<open>toLocaleString\<close>.
\<close>

definition eventItem :: "(jsstring option \<Rightarrow> jsstring) \<Rightarrow> calendar_event \<Rightarrow> li" where
  "eventItem toLocaleString event =
     \<lparr>li_text = toLocaleString (eventWhen event) @ [0x20, 0x2014, 0x20] @ summary event,
      li_buttons = []\<rparr>"

fun appendEvents :: "(jsstring option \<Rightarrow> jsstring) \<Rightarrow> calendar_event list \<Rightarrow> world \<Rightarrow> result" where
  "appendEvents toLocaleString [] w = Returned w"
| "appendEvents toLocaleString (event # events) w =
     andThen (appendChild (lit ''events'') (eventItem toLocaleString event) w)
       (appendEvents toLocaleString events)"

text \<open>The function given to \<open>then\<close> in \<open>listUpcomingEvents\<close>.\<close>

definition showEvents :: "(jsstring option \<Rightarrow> jsstring) \<Rightarrow> events_response \<Rightarrow> world \<Rightarrow> result" where
  "showEvents toLocaleString response w =
     andThen (clearInnerHTML (lit ''events'') w)
       (\<lambda>w'. case items (result response) of
                None \<Rightarrow> Threw TypeError w'
              | Some events \<Rightarrow>
                  if length events > 0 then appendEvents toLocaleString events w'
                  else appendChild (lit ''events'')
                         \<lparr>li_text = lit ''No upcoming events found.'', li_buttons = []\<rparr> w')"

text \<open>
  \<^verbatim>\<open>
  function listUpcomingEvents() {
    gapi.client.calendar.events
      .list({ calendarId: 'primary', timeMin: new Date().toISOString(), showDeleted: false,
              singleEvents: true, maxResults: 10, orderBy: 'startTime' })
      .then((response) => { ... })
      .catch((err) => { console.error('Error fetching events', err); });
  }
  \<close>
  \<open>now\<close> is \<open>new Date().toISOString()\<close>.
\<close>

definition listUpcomingEvents ::
  "jsstring \<Rightarrow> (jsstring option \<Rightarrow> jsstring) \<Rightarrow> events_response promise \<Rightarrow> world \<Rightarrow> result" where
  "listUpcomingEvents now toLocaleString outcome w =
     tryCatch
       (let w1 = call (EventsList
                   \<lparr>calendarId = lit ''primary'', timeMin = now, showDeleted = False,
                    singleEvents = True, maxResults = 10, orderBy = lit ''startTime''\<rparr>) w
        in case outcome of
             Rejected e \<Rightarrow> Threw e w1
           | Resolved response \<Rightarrow> showEvents toLocaleString response w1)
       (\<lambda>err w'. Returned (consoleError (lit ''Error fetching events'') err w'))"

text \<open>
  \<^verbatim>\<open>
  function updateSigninStatus(isSignedIn) {
    const authorizeButton = document.getElementById('authorize_button');
    const signoutButton = document.getElementById('signout_button');
    if (isSignedIn) {
      authorizeButton.style.display = 'none';
      signoutButton.style.display = 'inline-block';
      listUpcomingEvents();
    } else {
      authorizeButton.style.display = 'inline-block';
      signoutButton.style.display = 'none';
      document.getElementById('events').innerHTML = '';
    }
  }
  \<close>
  The listing that \<open>listUpcomingEvents\<close> starts is run to its end where it is started;
  it writes to the events list only, which nothing after it in the caller reads.
\<close>

definition updateSigninStatus ::
  "jsstring \<Rightarrow> (jsstring option \<Rightarrow> jsstring) \<Rightarrow> bool \<Rightarrow> events_response promise \<Rightarrow> world \<Rightarrow> result" where
  "updateSigninStatus now toLocaleString isSignedIn outcome w =
     (if isSignedIn then
        andThen (setDisplay (lit ''authorize_button'') (lit ''none'') w)
          (\<lambda>w1. andThen (setDisplay (lit ''signout_button'') (lit ''inline-block'') w1)
            (listUpcomingEvents now toLocaleString outcome))
      else
        andThen (setDisplay (lit ''authorize_button'') (lit ''inline-block'') w)
          (\<lambda>w1. andThen (setDisplay (lit ''signout_button'') (lit ''none'') w1)
            (clearInnerHTML (lit ''events''))))"

text \<open>
  \<^verbatim>\<open>function handleAuthClick() { gapi.auth2.getAuthInstance().signIn(); }\<close>
  \<^verbatim>\<open>function handleSignoutClick() { gapi.auth2.getAuthInstance().signOut(); }\<close>
  The promise that \<open>signIn\<close> (\<open>signOut\<close>) returns is dropped: when it rejects, nothing
  takes the rejection.
\<close>

definition handleAuthClick :: "unit promise \<Rightarrow> world \<Rightarrow> result" where
  "handleAuthClick outcome w =
     (let w1 = call SignIn w in
      case outcome of Rejected e \<Rightarrow> Threw e w1 | Resolved u \<Rightarrow> Returned w1)"

definition handleSignoutClick :: "unit promise \<Rightarrow> world \<Rightarrow> result" where
  "handleSignoutClick outcome w =
     (let w1 = call SignOut w in
      case outcome of Rejected e \<Rightarrow> Threw e w1 | Resolved u \<Rightarrow> Returned w1)"

definition GOOGLE_API_KEY :: jsstring where
  "GOOGLE_API_KEY = lit ''YOUR_GOOGLE_API_KEY''"

definition GOOGLE_CLIENT_ID :: jsstring where
  "GOOGLE_CLIENT_ID = lit ''YOUR_GOOGLE_CLIENT_ID.apps.googleusercontent.com''"

definition DISCOVERY_DOCS :: "jsstring list" where
  "DISCOVERY_DOCS = [lit ''https://www.googleapis.com/discovery/v1/apis/calendar/v3/rest'']"

definition SCOPES :: jsstring where
  "SCOPES = lit ''https://www.googleapis.com/auth/calendar.readonly''"

text \<open>
  \<^verbatim>\<open>
  function initClient() {
    gapi.client.init({ apiKey: GOOGLE_API_KEY, clientId: GOOGLE_CLIENT_ID,
                       discoveryDocs: DISCOVERY_DOCS, scope: SCOPES })
      .then(() => {
        gapi.auth2.getAuthInstance().isSignedIn.listen(updateSigninStatus);
        updateSigninStatus(gapi.auth2.getAuthInstance().isSignedIn.get());
        document.getElementById('authorize_button').onclick = handleAuthClick;
        document.getElementById('signout_button').onclick = handleSignoutClick;
      })
      .catch((error) => { console.error('Error initialising Google API client', error); });
  }
  \<close>
  \<open>initOutcome\<close> is how \<open>gapi.client.init\<close> settles, \<open>signedIn\<close> what \<open>isSignedIn.get()\<close>
  returns, \<open>listOutcome\<close> how the listing started by \<open>updateSigninStatus\<close> settles.
\<close>

definition initClient ::
  "jsstring \<Rightarrow> (jsstring option \<Rightarrow> jsstring) \<Rightarrow> unit promise \<Rightarrow> bool \<Rightarrow> events_response promise
     \<Rightarrow> world \<Rightarrow> result" where
  "initClient now toLocaleString initOutcome signedIn listOutcome w =
     tryCatch
       (let w1 = call (ClientInit \<lparr>apiKey = GOOGLE_API_KEY, clientId = GOOGLE_CLIENT_ID,
                                   discoveryDocs = DISCOVERY_DOCS, scope = SCOPES\<rparr>) w
        in case initOutcome of
             Rejected e \<Rightarrow> Threw e w1
           | Resolved u \<Rightarrow>
               andThen
                 (updateSigninStatus now toLocaleString signedIn listOutcome
                    (w1\<lparr>signinListeners := Suc (signinListeners w1)\<rparr>))
                 (\<lambda>w2. andThen (setOnclick (lit ''authorize_button'') HandleAuthClick w2)
                   (setOnclick (lit ''signout_button'') HandleSignoutClick)))
       (\<lambda>error w'. Returned (consoleError (lit ''Error initialising Google API client'') error w'))"

section \<open>Events on the page\<close>

text \<open>
  What runs the script's code once \<open>initNotes\<close> has run: a click on an element, a click
  on a button inside a list item, a snapshot delivered by the store, a change of the
  sign-in state, the callback of \<open>gapi.load\<close> (which is \<open>initClient\<close>) and a call of
  \<open>fetchWeather\<close>. Each carries how the external call it makes settles (and, for the
  listing, the current time). Any of them may happen any number of times, with any
  arguments.
\<close>

datatype 'n event =
    Click jsstring "unit promise"
  | ClickButton jsstring nat nat "unit promise"
  | SnapshotDelivered "docSnap list"
  | SigninChanged bool jsstring "events_response promise"
  | GapiLoaded jsstring "unit promise" bool "events_response promise"
  | WeatherFetched 'n 'n jsstring jsstring "'n response promise"

definition runHandler :: "handler \<Rightarrow> unit promise \<Rightarrow> world \<Rightarrow> result" where
  "runHandler h outcome w =
     (case h of
        SaveNoteClick notesCol \<Rightarrow> saveNoteClick notesCol outcome w
      | DeleteNoteClick noteId \<Rightarrow> deleteNoteClick noteId outcome w
      | HandleAuthClick \<Rightarrow> handleAuthClick outcome w
      | HandleSignoutClick \<Rightarrow> handleSignoutClick outcome w)"

text \<open>
  A callback that throws does not stop the page: the error is reported as uncaught
  (for an \<open>async\<close> callback, as an unhandled rejection) and the page goes on.
\<close>

definition settle :: "result \<Rightarrow> world" where
  "settle r = (case r of Returned w \<Rightarrow> w | Threw e w \<Rightarrow> w\<lparr>uncaught := uncaught w @ [e]\<rparr>)"

text \<open>
  A click runs the listeners of the element and its \<open>onclick\<close>; a disabled control
  dispatches no click. A snapshot runs \<open>renderNotes\<close> once for each \<open>onSnapshot\<close>
  registration, a sign-in change runs \<open>updateSigninStatus\<close> once for each \<open>listen\<close>.

  Each handler is run to its end before the next one starts. For an element with one
  handler that is what the browser does, up to what else happens while the handler
  awaits. For an element with several \<open>async\<close> handlers it is not: the browser runs each
  up to its first \<open>await\<close> before any of them resumes (two save handlers on one button
  would both read the input before either clears it). The script attaches one handler
  to each element, and the statements below that say what a click issues or changes
  are about an element with one handler; the invariant of the disabled notes holds for
  any number of handlers, none of them being a save handler.
\<close>

definition fire ::
  "('n \<Rightarrow> jsstring) \<Rightarrow> (jsstring option \<Rightarrow> jsstring) \<Rightarrow> 'n event \<Rightarrow> world \<Rightarrow> world" where
  "fire numToString toLocaleString ev w =
     (case ev of
        Click elemId outcome \<Rightarrow>
          (case elems w elemId of
             None \<Rightarrow> w
           | Some e \<Rightarrow>
               if disabled e then w
               else fold (\<lambda>h w'. settle (runHandler h outcome w'))
                      (clickListeners e @ (case onclick e of None \<Rightarrow> [] | Some h \<Rightarrow> [h])) w)
      | ClickButton elemId i k outcome \<Rightarrow>
          (case elems w elemId of
             None \<Rightarrow> w
           | Some e \<Rightarrow>
               if i < length (children e) \<and> k < length (li_buttons (children e ! i))
               then settle (runHandler (onClick (li_buttons (children e ! i) ! k)) outcome w)
               else w)
      | SnapshotDelivered snapshot \<Rightarrow>
          fold (\<lambda>c w'. settle (renderNotes snapshot w')) (subscriptions w) w
      | SigninChanged isSignedIn now outcome \<Rightarrow>
          ((\<lambda>w'. settle (updateSigninStatus now toLocaleString isSignedIn outcome w'))
             ^^ signinListeners w) w
      | GapiLoaded now initOutcome signedIn listOutcome \<Rightarrow>
          settle (initClient now toLocaleString initOutcome signedIn listOutcome w)
      | WeatherFetched lat lon tempElemId descElemId outcome \<Rightarrow>
          settle (fetchWeather numToString lat lon tempElemId descElemId outcome w))"

text \<open>The states the page can come to from \<open>w\<close>, by any events in any order.\<close>

inductive reaches ::
  "('n \<Rightarrow> jsstring) \<Rightarrow> (jsstring option \<Rightarrow> jsstring) \<Rightarrow> world \<Rightarrow> world \<Rightarrow> bool"
  for numToString :: "'n \<Rightarrow> jsstring" and toLocaleString :: "jsstring option \<Rightarrow> jsstring"
    and w :: world where
  reaches_here: "reaches numToString toLocaleString w w"
| reaches_fire:
    "reaches numToString toLocaleString w w' \<Longrightarrow>
     reaches numToString toLocaleString w (fire numToString toLocaleString ev w')"

text \<open>The store mutations among the calls made: note creations and deletions.\<close>

fun isNoteMutation :: "request \<Rightarrow> bool" where
  "isNoteMutation (AddDoc c d) = True"
| "isNoteMutation (DeleteDoc r) = True"
| "isNoteMutation r = False"

text \<open>Every click handler an element holds: its listeners, its \<open>onclick\<close>, its items' buttons.\<close>

definition handlersOf :: "element \<Rightarrow> handler list" where
  "handlersOf e =
     clickListeners e @ (case onclick e of None \<Rightarrow> [] | Some h \<Rightarrow> [h])
     @ concat (map (\<lambda>item. map onClick (li_buttons item)) (children e))"

fun isSaveHandler :: "handler \<Rightarrow> bool" where
  "isSaveHandler (SaveNoteClick c) = True"
| "isSaveHandler h = False"

text \<open>No element of the page holds a save handler.\<close>

definition noSaveHandler :: "world \<Rightarrow> bool" where
  "noSaveHandler w \<longleftrightarrow> (\<forall>i e. elems w i = Some e \<longrightarrow> (\<forall>h \<in> set (handlersOf e). \<not> isSaveHandler h))"

text \<open>
  From \<open>w\<close> to \<open>w'\<close> the notes stay as they were: \<open>db\<close> and the snapshot listeners
  are the same, no save handler has appeared, and no note was created or deleted.
\<close>

definition notesUntouched :: "world \<Rightarrow> world \<Rightarrow> bool" where
  "notesUntouched w w' \<longleftrightarrow>
     db w' = db w \<and> subscriptions w' = subscriptions w
     \<and> (noSaveHandler w \<longrightarrow> noSaveHandler w')
     \<and> filter isNoteMutation (requests w') = filter isNoteMutation (requests w)"

section \<open>The hosting page\<close>

text \<open>
  The page as it is loaded, before the script has run: the elements the script looks up
  by id, each blank and with no handler; \<open>db\<close> not yet assigned.
\<close>

definition blank :: element where
  "blank = \<lparr>textContent = [], val = [], disabled = False, display = [], children = [],
            clickListeners = [], onclick = None\<rparr>"

definition page :: world where
  "page =
     \<lparr>db = None,
      elems = [lit ''aarhus-temp'' \<mapsto> blank, lit ''aarhus-desc'' \<mapsto> blank,
               lit ''newton-temp'' \<mapsto> blank, lit ''newton-desc'' \<mapsto> blank,
               lit ''notes-list'' \<mapsto> blank, lit ''note-input'' \<mapsto> blank,
               lit ''save-note'' \<mapsto> blank, lit ''authorize_button'' \<mapsto> blank,
               lit ''signout_button'' \<mapsto> blank, lit ''events'' \<mapsto> blank],
      console = [], requests = [], textWrites = [], subscriptions = [],
      signinListeners = 0, uncaught = []\<rparr>"

text \<open>The text an element shows, when the element is there.\<close>

definition textOf :: "world \<Rightarrow> jsstring \<Rightarrow> jsstring option" where
  "textOf w elemId = map_option textContent (elems w elemId)"

text \<open>The list items of an element, when the element is there.\<close>

definition itemsOf :: "world \<Rightarrow> jsstring \<Rightarrow> li list option" where
  "itemsOf w elemId = map_option children (elems w elemId)"

text \<open>The state a piece of code ends in, and what it threw, if anything.\<close>

fun worldOf :: "result \<Rightarrow> world" where
  "worldOf (Returned w) = w"
| "worldOf (Threw e w) = w"

fun thrown :: "result \<Rightarrow> exn option" where
  "thrown (Returned w) = None"
| "thrown (Threw e w) = Some e"

text \<open>
  For the examples: a \<open>toLocaleString\<close> that shows the start as it came (and
  \<open>Invalid Date\<close> for none).
\<close>

definition plainLocale :: "jsstring option \<Rightarrow> jsstring" where
  "plainLocale when = (case when of None \<Rightarrow> lit ''Invalid Date'' | Some s \<Rightarrow> s)"

text \<open>The page once the user has typed \<open>s\<close> into the note input.\<close>

definition pageTyped :: "jsstring \<Rightarrow> world" where
  "pageTyped s = page\<lparr>elems := (elems page)(lit ''note-input'' \<mapsto> blank\<lparr>val := s\<rparr>)\<rparr>"

text \<open>The page once Firestore is there and \<open>initNotes\<close> has run.\<close>

definition pageNotes :: world where
  "pageNotes = worldOf (initNotes (page\<lparr>db := Some Firestore\<rparr>))"

text \<open>That page once the user has typed \<open>s\<close> into the note input.\<close>

definition pageNotesTyped :: "jsstring \<Rightarrow> world" where
  "pageNotesTyped s =
     pageNotes\<lparr>elems := (elems pageNotes)(lit ''note-input'' \<mapsto> blank\<lparr>val := s\<rparr>)\<rparr>"

text \<open>For the examples: a snapshot of two notes.\<close>

definition twoNotes :: "docSnap list" where
  "twoNotes =
     [\<lparr>docId = lit ''a1'', docData = \<lparr>noteText = lit ''Buy milk''\<rparr>\<rparr>,
      \<lparr>docId = lit ''b2'', docData = \<lparr>noteText = lit ''Call home''\<rparr>\<rparr>]"

text \<open>The page once \<open>initClient\<close> has run, for a user who is not signed in.\<close>

definition pageCalendar :: world where
  "pageCalendar =
     worldOf (initClient (lit ''2026-01-01T00:00:00.000Z'') plainLocale (Resolved ()) False
                (Resolved \<lparr>result = \<lparr>items = Some []\<rparr>\<rparr>) page)"

text \<open>For the examples: a timed event and an all-day event.\<close>

definition standup :: calendar_event where
  "standup = \<lparr>start = \<lparr>dateTime = Some (lit ''2026-01-05T09:00:00+01:00''), date = None\<rparr>,
              summary = lit ''Standup''\<rparr>"

definition holiday :: calendar_event where
  "holiday = \<lparr>start = \<lparr>dateTime = None, date = Some (lit ''2026-01-06'')\<rparr>,
              summary = lit ''Holiday''\<rparr>"

section \<open>Properties of the weather code interpreter\<close>

lemma lit_Nil_iff [simp]: "lit s = [] \<longleftrightarrow> s = []"
  by (simp add: lit_def)

lemma weatherCodeMap_distinct: "distinct (map fst weatherCodeMap)"
  by (simp add: weatherCodeMap_def)

lemma weatherCodeMap_all_nonempty: "\<forall>entry \<in> set weatherCodeMap. snd entry \<noteq> []"
  by (simp add: weatherCodeMap_def)

lemma weatherCodeMap_nonempty: "(code, description) \<in> set weatherCodeMap \<Longrightarrow> description \<noteq> []"
  using weatherCodeMap_all_nonempty by fastforce

text \<open>
  C1. For every integer code that is a key of the weather-code table,
  \<open>interpretWeatherCode\<close> returns exactly the string the table maps it to; for every
  integer code that is not a key it returns \<open>Unknown conditions\<close>. The function takes
  no state and returns a string for every integer: it is pure and total.
\<close>

theorem interpretWeatherCode_table:
  "(\<forall>(code, description) \<in> set weatherCodeMap. interpretWeatherCode code = description)
   \<and> (\<forall>code. code \<notin> fst ` set weatherCodeMap \<longrightarrow>
          interpretWeatherCode code = lit ''Unknown conditions'')"
proof (intro conjI ballI allI impI)
  fix entry assume mem: "entry \<in> set weatherCodeMap"
  obtain code description where entry: "entry = (code, description)" by (cases entry)
  from mem entry have "map_of weatherCodeMap code = Some description"
    using weatherCodeMap_distinct by simp
  moreover from mem entry have "description \<noteq> []"
    using weatherCodeMap_nonempty by simp
  ultimately show "case entry of (code, description) \<Rightarrow> interpretWeatherCode code = description"
    by (simp add: entry interpretWeatherCode_def)
next
  fix code :: int assume "code \<notin> fst ` set weatherCodeMap"
  then have "map_of weatherCodeMap code = None"
    by (simp add: map_of_eq_None_iff)
  then show "interpretWeatherCode code = lit ''Unknown conditions''"
    by (simp add: interpretWeatherCode_def)
qed

text \<open>At code 3, and at the codes 13, -1 and 9999, which the table does not hold.\<close>

theorem interpretWeatherCode_table_witness:
  "(3, lit ''Overcast'') \<in> set weatherCodeMap \<and> interpretWeatherCode 3 = lit ''Overcast''
   \<and> 13 \<notin> fst ` set weatherCodeMap \<and> interpretWeatherCode 13 = lit ''Unknown conditions''
   \<and> - 1 \<notin> fst ` set weatherCodeMap \<and> interpretWeatherCode (- 1) = lit ''Unknown conditions''
   \<and> 9999 \<notin> fst ` set weatherCodeMap \<and> interpretWeatherCode 9999 = lit ''Unknown conditions''"
proof -
  have a: "(3, lit ''Overcast'') \<in> set weatherCodeMap" by (simp add: weatherCodeMap_def)
  have b: "13 \<notin> fst ` set weatherCodeMap" "- 1 \<notin> fst ` set weatherCodeMap"
    "9999 \<notin> fst ` set weatherCodeMap" by (simp_all add: weatherCodeMap_def)
  note known = conjunct1 [OF interpretWeatherCode_table, THEN bspec, OF a]
  note unknown = conjunct2 [OF interpretWeatherCode_table, THEN spec, THEN mp]
  from known have "interpretWeatherCode 3 = lit ''Overcast''" by simp
  with a b unknown [OF b(1)] unknown [OF b(2)] unknown [OF b(3)] show ?thesis
    by (intro conjI)
qed

section \<open>Properties of the weather fetcher\<close>

text \<open>Writing two slots in turn.\<close>

lemma write_two:
  assumes "elems w a \<noteq> None" "elems w b \<noteq> None"
  shows "thrown (andThen (setTextContent a s w) (setTextContent b t)) = None"
    and "textWrites (worldOf (andThen (setTextContent a s w) (setTextContent b t))) = textWrites w @ [(a, s), (b, t)]"
    and "textOf (worldOf (andThen (setTextContent a s w) (setTextContent b t))) b = Some t"
    and "a \<noteq> b \<Longrightarrow> textOf (worldOf (andThen (setTextContent a s w) (setTextContent b t))) a = Some s"
    and "console (worldOf (andThen (setTextContent a s w) (setTextContent b t))) = console w"
    and "requests (worldOf (andThen (setTextContent a s w) (setTextContent b t))) = requests w"
  using assms by (auto simp: setTextContent_def andThen_def textOf_def)

text \<open>
  C2. When the response is a success whose payload holds the current conditions, and
  the two slots are distinct elements of the page, \<open>fetchWeather\<close> returns with the
  temperature slot showing the text of the payload's temperature followed by \<open>\<degree>C\<close>
  and the description slot showing the interpretation of the payload's weather code.
\<close>

theorem fetchWeather_current:
  assumes "elems w tempElemId \<noteq> None" and "elems w descElemId \<noteq> None"
    and "tempElemId \<noteq> descElemId"
    and "outcome = Resolved response" and "ok response"
    and "json response = Resolved (JsonData data)" and "current_weather data = Some current"
  shows "thrown (fetchWeather numToString lat lon tempElemId descElemId outcome w) = None
    \<and> textOf (worldOf (fetchWeather numToString lat lon tempElemId descElemId outcome w)) tempElemId
        = Some (numToString (temperature current) @ [0xB0] @ lit ''C'')
    \<and> textOf (worldOf (fetchWeather numToString lat lon tempElemId descElemId outcome w)) descElemId
        = Some (interpretWeatherCode (weathercode current))"
proof -
  let ?w1 = "call (HttpGet (weatherUrl numToString lat lon)) w"
  have ex: "elems ?w1 tempElemId \<noteq> None" "elems ?w1 descElemId \<noteq> None"
    using assms(1,2) by (simp_all add: call_def)
  let ?r = "andThen (setTextContent tempElemId (numToString (temperature current) @ [0xB0] @ lit ''C'') ?w1)
     (setTextContent descElemId (interpretWeatherCode (weathercode current)))"
  have body: "fetchWeather_body numToString lat lon tempElemId descElemId outcome w = ?r"
    using assms(4-7) by (simp add: fetchWeather_body_def)
  have "thrown ?r = None" using write_two(1)[OF ex] .
  then have "fetchWeather numToString lat lon tempElemId descElemId outcome w = ?r"
    unfolding fetchWeather_def body by (cases ?r) (simp_all add: tryCatch_def)
  then show ?thesis
    using write_two(1,3)[OF ex] write_two(4)[OF ex assms(3)] by simp
qed


lemma interpretWeatherCode_3: "interpretWeatherCode 3 = lit ''Overcast''"
  by (simp add: interpretWeatherCode_def weatherCodeMap_def)

lemma page_slots:
  "elems page (lit ''aarhus-temp'') = Some blank" "elems page (lit ''aarhus-desc'') = Some blank"
  "lit ''aarhus-temp'' \<noteq> lit ''aarhus-desc''"
  by (simp_all add: page_def lit_def)

text \<open>
  Temperature 21.4 with code 3 on the page as loaded: \<open>21.4\<degree>C\<close> and \<open>Overcast\<close>.
  Here a number is stood for by the text the runtime prints for it.
\<close>

theorem fetchWeather_current_witness:
  "elems page (lit ''aarhus-temp'') \<noteq> None \<and> elems page (lit ''aarhus-desc'') \<noteq> None
   \<and> lit ''aarhus-temp'' \<noteq> lit ''aarhus-desc''
   \<and> thrown (fetchWeather id (lit ''56.1572'') (lit ''10.2107'') (lit ''aarhus-temp'') (lit ''aarhus-desc'')
        (Resolved \<lparr>ok = True, json = Resolved (JsonData \<lparr>current_weather =
           Some \<lparr>temperature = lit ''21.4'', weathercode = 3\<rparr>\<rparr>)\<rparr>) page) = None
   \<and> textOf (worldOf (fetchWeather id (lit ''56.1572'') (lit ''10.2107'') (lit ''aarhus-temp'') (lit ''aarhus-desc'')
        (Resolved \<lparr>ok = True, json = Resolved (JsonData \<lparr>current_weather =
           Some \<lparr>temperature = lit ''21.4'', weathercode = 3\<rparr>\<rparr>)\<rparr>) page)) (lit ''aarhus-temp'')
       = Some (lit ''21.4'' @ [0xB0] @ lit ''C'')
   \<and> textOf (worldOf (fetchWeather id (lit ''56.1572'') (lit ''10.2107'') (lit ''aarhus-temp'') (lit ''aarhus-desc'')
        (Resolved \<lparr>ok = True, json = Resolved (JsonData \<lparr>current_weather =
           Some \<lparr>temperature = lit ''21.4'', weathercode = 3\<rparr>\<rparr>)\<rparr>) page)) (lit ''aarhus-desc'')
       = Some (lit ''Overcast'')"
proof -
  have t: "elems page (lit ''aarhus-temp'') \<noteq> None" and d: "elems page (lit ''aarhus-desc'') \<noteq> None"
    by (simp_all add: page_slots)
  note ne = page_slots(3)
  have "ok \<lparr>ok = True, json = Resolved (JsonData \<lparr>current_weather =
           Some \<lparr>temperature = lit ''21.4'', weathercode = 3\<rparr>\<rparr>)\<rparr>" by simp
  from fetchWeather_current [OF t d ne refl this, where numToString = id and lat = "lit ''56.1572''"
      and lon = "lit ''10.2107''" and current = "\<lparr>temperature = lit ''21.4'', weathercode = 3\<rparr>"
      and data = "\<lparr>current_weather = Some \<lparr>temperature = lit ''21.4'', weathercode = 3\<rparr>\<rparr>"]
  show ?thesis using t d ne by (simp add: interpretWeatherCode_3)
qed

lemma fetchWeather_caught:
  "fetchWeather_body numToString lat lon tempElemId descElemId outcome w = Threw e w1 \<Longrightarrow>
   fetchWeather numToString lat lon tempElemId descElemId outcome w =
     andThen (setTextContent tempElemId (lit ''Error fetching weather'')
                (consoleError (lit ''Error fetching weather:'') e w1))
       (setTextContent descElemId [])"
  by (simp add: fetchWeather_def tryCatch_def)

lemma fetchWeather_not_caught:
  "thrown (fetchWeather_body numToString lat lon tempElemId descElemId outcome w) = None \<Longrightarrow>
   fetchWeather numToString lat lon tempElemId descElemId outcome w =
     fetchWeather_body numToString lat lon tempElemId descElemId outcome w"
  by (cases "fetchWeather_body numToString lat lon tempElemId descElemId outcome w")
     (simp_all add: fetchWeather_def tryCatch_def)

text \<open>The error a fetch ends in, when the request, the status or the parsing fails.\<close>

lemma fetchWeather_body_fails:
  assumes "outcome = Rejected e \<and> err = e
     \<or> (\<exists>response. outcome = Resolved response \<and> \<not> ok response
            \<and> err = Error (lit ''Weather request failed''))
     \<or> (\<exists>response. outcome = Resolved response \<and> ok response \<and> json response = Rejected e
            \<and> err = e)"
  shows "fetchWeather_body numToString lat lon tempElemId descElemId outcome w
     = Threw err (call (HttpGet (weatherUrl numToString lat lon)) w)"
  using assms by (auto simp: fetchWeather_body_def)

text \<open>
  C3. When the fetch is rejected, the status is not a success or reading the JSON
  fails, and the two slots are distinct elements of the page, \<open>fetchWeather\<close> returns
  (nothing is thrown to the caller) with \<open>Error fetching weather\<close> in the temperature
  slot and the empty text in the description slot, and has logged the error.
\<close>

theorem fetchWeather_failure:
  assumes "elems w tempElemId \<noteq> None" and "elems w descElemId \<noteq> None"
    and "tempElemId \<noteq> descElemId"
    and "outcome = Rejected e \<and> err = e
     \<or> (\<exists>response. outcome = Resolved response \<and> \<not> ok response
            \<and> err = Error (lit ''Weather request failed''))
     \<or> (\<exists>response. outcome = Resolved response \<and> ok response \<and> json response = Rejected e
            \<and> err = e)"
  shows "thrown (fetchWeather numToString lat lon tempElemId descElemId outcome w) = None
    \<and> textOf (worldOf (fetchWeather numToString lat lon tempElemId descElemId outcome w)) tempElemId
        = Some (lit ''Error fetching weather'')
    \<and> textOf (worldOf (fetchWeather numToString lat lon tempElemId descElemId outcome w)) descElemId
        = Some []
    \<and> console (worldOf (fetchWeather numToString lat lon tempElemId descElemId outcome w))
        = console w @ [ConsoleError (lit ''Error fetching weather:'') err]"
proof -
  let ?w2 = "consoleError (lit ''Error fetching weather:'') err
               (call (HttpGet (weatherUrl numToString lat lon)) w)"
  have ex: "elems ?w2 tempElemId \<noteq> None" "elems ?w2 descElemId \<noteq> None"
    using assms(1,2) by (simp_all add: call_def consoleError_def)
  have "fetchWeather numToString lat lon tempElemId descElemId outcome w =
     andThen (setTextContent tempElemId (lit ''Error fetching weather'') ?w2)
       (setTextContent descElemId [])"
    by (rule fetchWeather_caught) (rule fetchWeather_body_fails [OF assms(4)])
  moreover have "console ?w2 = console w @ [ConsoleError (lit ''Error fetching weather:'') err]"
    by (simp add: call_def consoleError_def)
  ultimately show ?thesis
    using write_two(1,3,5) [OF ex] write_two(4) [OF ex assms(3)] by simp
qed

text \<open>A status 500 on the page as loaded.\<close>

theorem fetchWeather_failure_witness:
  "elems page (lit ''newton-temp'') \<noteq> None \<and> elems page (lit ''newton-desc'') \<noteq> None
   \<and> lit ''newton-temp'' \<noteq> lit ''newton-desc''
   \<and> thrown (fetchWeather id (lit ''41.0582'') (lit ''-74.7527'') (lit ''newton-temp'') (lit ''newton-desc'')
        (Resolved \<lparr>ok = False, json = Rejected (Failure (lit ''500''))\<rparr>) page) = None
   \<and> textOf (worldOf (fetchWeather id (lit ''41.0582'') (lit ''-74.7527'') (lit ''newton-temp'') (lit ''newton-desc'')
        (Resolved \<lparr>ok = False, json = Rejected (Failure (lit ''500''))\<rparr>) page)) (lit ''newton-temp'')
       = Some (lit ''Error fetching weather'')
   \<and> textOf (worldOf (fetchWeather id (lit ''41.0582'') (lit ''-74.7527'') (lit ''newton-temp'') (lit ''newton-desc'')
        (Resolved \<lparr>ok = False, json = Rejected (Failure (lit ''500''))\<rparr>) page)) (lit ''newton-desc'')
       = Some []
   \<and> console (worldOf (fetchWeather id (lit ''41.0582'') (lit ''-74.7527'') (lit ''newton-temp'') (lit ''newton-desc'')
        (Resolved \<lparr>ok = False, json = Rejected (Failure (lit ''500''))\<rparr>) page))
       = [ConsoleError (lit ''Error fetching weather:'') (Error (lit ''Weather request failed''))]"
proof -
  have t: "elems page (lit ''newton-temp'') \<noteq> None" and d: "elems page (lit ''newton-desc'') \<noteq> None"
    and ne: "lit ''newton-temp'' \<noteq> lit ''newton-desc''"
    by (simp_all add: page_def lit_def)
  have c: "console page = []" by (simp add: page_def)
  let ?outcome = "Resolved \<lparr>ok = False, json = Rejected (Failure (lit ''500'')) :: jsstring body promise\<rparr>"
  have h: "?outcome = Rejected (Failure []) \<and> Error (lit ''Weather request failed'') = Failure []
     \<or> (\<exists>response. ?outcome = Resolved response \<and> \<not> ok response
            \<and> Error (lit ''Weather request failed'') = Error (lit ''Weather request failed''))
     \<or> (\<exists>response. ?outcome = Resolved response \<and> ok response \<and> json response = Rejected (Failure [])
            \<and> Error (lit ''Weather request failed'') = Failure [])"
    by simp
  from fetchWeather_failure [OF t d ne h, where numToString = id and lat = "lit ''41.0582''"
      and lon = "lit ''-74.7527''"]
  show ?thesis using t d ne c by simp
qed

text \<open>
  C10. Whatever the outcome of the fetch, when both slots are elements of the page
  \<open>fetchWeather\<close> returns having assigned \<open>textContent\<close> exactly twice: once to the
  temperature slot, then once to the description slot; each slot shows what was
  assigned to it.
\<close>

theorem fetchWeather_writes_once:
  assumes "elems w tempElemId \<noteq> None" and "elems w descElemId \<noteq> None"
  shows "\<exists>t d. thrown (fetchWeather numToString lat lon tempElemId descElemId outcome w) = None
    \<and> textWrites (worldOf (fetchWeather numToString lat lon tempElemId descElemId outcome w))
        = textWrites w @ [(tempElemId, t), (descElemId, d)]
    \<and> textOf (worldOf (fetchWeather numToString lat lon tempElemId descElemId outcome w)) descElemId
        = Some d
    \<and> (tempElemId \<noteq> descElemId \<longrightarrow>
        textOf (worldOf (fetchWeather numToString lat lon tempElemId descElemId outcome w)) tempElemId
        = Some t)"
proof -
  let ?w1 = "call (HttpGet (weatherUrl numToString lat lon)) w"
  let ?f = "fetchWeather numToString lat lon tempElemId descElemId outcome w"
  let ?b = "fetchWeather_body numToString lat lon tempElemId descElemId outcome w"
  have ex1: "elems ?w1 tempElemId \<noteq> None" "elems ?w1 descElemId \<noteq> None"
    and tw1: "textWrites ?w1 = textWrites w"
    using assms by (simp_all add: call_def)
  have two: "\<exists>t d. thrown (andThen (setTextContent tempElemId t' w') (setTextContent descElemId d')) = None
      \<and> textWrites (worldOf (andThen (setTextContent tempElemId t' w') (setTextContent descElemId d')))
          = textWrites w @ [(tempElemId, t), (descElemId, d)]
      \<and> textOf (worldOf (andThen (setTextContent tempElemId t' w') (setTextContent descElemId d'))) descElemId
          = Some d
      \<and> (tempElemId \<noteq> descElemId \<longrightarrow>
          textOf (worldOf (andThen (setTextContent tempElemId t' w') (setTextContent descElemId d'))) tempElemId
          = Some t)"
    if "elems w' tempElemId \<noteq> None" "elems w' descElemId \<noteq> None" "textWrites w' = textWrites w"
    for t' d' w'
    using write_two(1,2,3) [OF that(1,2)] write_two(4) [OF that(1,2)] that(3) by auto
  have failing: ?thesis if "?b = Threw err ?w1" for err
  proof -
    let ?w2 = "consoleError (lit ''Error fetching weather:'') err ?w1"
    have "elems ?w2 tempElemId \<noteq> None" "elems ?w2 descElemId \<noteq> None" "textWrites ?w2 = textWrites w"
      using assms by (simp_all add: call_def consoleError_def)
    from two [OF this] fetchWeather_caught [OF that] show ?thesis by simp
  qed
  show ?thesis
  proof (cases outcome)
    case (Rejected e)
    then have "?b = Threw e ?w1" by (simp add: fetchWeather_body_def)
    then show ?thesis by (rule failing)
  next
    case (Resolved response)
    show ?thesis
    proof (cases "ok response")
      case False
      with Resolved have "?b = Threw (Error (lit ''Weather request failed'')) ?w1"
        by (simp add: fetchWeather_body_def)
      then show ?thesis by (rule failing)
    next
      case True
      show ?thesis
      proof (cases "json response")
        case (Rejected e)
        with Resolved True have "?b = Threw e ?w1" by (simp add: fetchWeather_body_def)
        then show ?thesis by (rule failing)
      next
        case body: (Resolved payload)
        show ?thesis
        proof (cases payload)
          case JsonNull
          with Resolved True body have "?b = Threw TypeError ?w1" by (simp add: fetchWeather_body_def)
          then show ?thesis by (rule failing)
        next
          case data: (JsonData data)
          show ?thesis
        proof (cases "current_weather data")
          case None
          with Resolved True body data have b: "?b = andThen (setTextContent tempElemId (lit ''No data available'') ?w1)
              (setTextContent descElemId [])"
            by (simp add: fetchWeather_body_def)
          with write_two(1) [OF ex1] have "?f = ?b" by (simp add: fetchWeather_not_caught)
          with two [OF ex1 tw1] b show ?thesis by simp
        next
          case (Some current)
          with Resolved True body data have b: "?b = andThen
              (setTextContent tempElemId (numToString (temperature current) @ [0xB0] @ lit ''C'') ?w1)
              (setTextContent descElemId (interpretWeatherCode (weathercode current)))"
            by (simp add: fetchWeather_body_def)
          with write_two(1) [OF ex1] have "?f = ?b" by (simp add: fetchWeather_not_caught)
          with two [OF ex1 tw1] b show ?thesis by simp
        qed
        qed
      qed
    qed
  qed
qed

text \<open>A rejected fetch on the page as loaded.\<close>

theorem fetchWeather_writes_once_witness:
  "elems page (lit ''aarhus-temp'') \<noteq> None \<and> elems page (lit ''aarhus-desc'') \<noteq> None
   \<and> (\<exists>t d. thrown (fetchWeather id (lit ''56.1572'') (lit ''10.2107'') (lit ''aarhus-temp'') (lit ''aarhus-desc'')
        (Rejected (Failure (lit ''Failed to fetch''))) page) = None
    \<and> textWrites (worldOf (fetchWeather id (lit ''56.1572'') (lit ''10.2107'') (lit ''aarhus-temp'') (lit ''aarhus-desc'')
        (Rejected (Failure (lit ''Failed to fetch''))) page))
        = [(lit ''aarhus-temp'', t), (lit ''aarhus-desc'', d)]
    \<and> textOf (worldOf (fetchWeather id (lit ''56.1572'') (lit ''10.2107'') (lit ''aarhus-temp'') (lit ''aarhus-desc'')
        (Rejected (Failure (lit ''Failed to fetch''))) page)) (lit ''aarhus-desc'') = Some d
    \<and> textOf (worldOf (fetchWeather id (lit ''56.1572'') (lit ''10.2107'') (lit ''aarhus-temp'') (lit ''aarhus-desc'')
        (Rejected (Failure (lit ''Failed to fetch''))) page)) (lit ''aarhus-temp'') = Some t)"
proof -
  have t: "elems page (lit ''aarhus-temp'') \<noteq> None" and d: "elems page (lit ''aarhus-desc'') \<noteq> None"
    by (simp_all add: page_slots)
  have c: "textWrites page = []" by (simp add: page_def)
  from fetchWeather_writes_once [OF t d, where numToString = id and lat = "lit ''56.1572''"
      and lon = "lit ''10.2107''" and outcome = "Rejected (Failure (lit ''Failed to fetch''))"]
  show ?thesis using t d c page_slots(3) by simp
qed

section \<open>Incomplete payloads\<close>

text \<open>
  The one payload that has no fields to read is \<open>null\<close>: on it \<open>data.current_weather\<close>
  throws, and the fetch ends in the \<open>catch\<close> like any other failure.
\<close>

lemma fetchWeather_null_body:
  assumes "elems w tempElemId \<noteq> None" and "elems w descElemId \<noteq> None"
    and "tempElemId \<noteq> descElemId"
    and "outcome = Resolved response" and "ok response" and "json response = Resolved JsonNull"
  shows "textOf (worldOf (fetchWeather numToString lat lon tempElemId descElemId outcome w)) tempElemId
        = Some (lit ''Error fetching weather'')
    \<and> console (worldOf (fetchWeather numToString lat lon tempElemId descElemId outcome w))
        = console w @ [ConsoleError (lit ''Error fetching weather:'') TypeError]"
proof -
  let ?w2 = "consoleError (lit ''Error fetching weather:'') TypeError
               (call (HttpGet (weatherUrl numToString lat lon)) w)"
  have ex: "elems ?w2 tempElemId \<noteq> None" "elems ?w2 descElemId \<noteq> None"
    using assms(1,2) by (simp_all add: call_def consoleError_def)
  have "fetchWeather_body numToString lat lon tempElemId descElemId outcome w
      = Threw TypeError (call (HttpGet (weatherUrl numToString lat lon)) w)"
    using assms(4-6) by (simp add: fetchWeather_body_def)
  from fetchWeather_caught [OF this] write_two(5) [OF ex] write_two(4) [OF ex assms(3)]
  show ?thesis by (simp add: call_def consoleError_def)
qed

text \<open>
  C4, for the weather fetcher. The weather fetcher takes a success payload other than
  \<open>null\<close> whose current-conditions field is absent as no data: with two distinct slots
  on the page it returns with \<open>No data available\<close> in the temperature slot and the empty
  text in the description slot, and logs nothing.
\<close>

theorem fetchWeather_no_data:
  assumes "elems w tempElemId \<noteq> None" and "elems w descElemId \<noteq> None"
    and "tempElemId \<noteq> descElemId"
    and "outcome = Resolved response" and "ok response"
    and "json response = Resolved (JsonData data)" and "current_weather data = None"
  shows "thrown (fetchWeather numToString lat lon tempElemId descElemId outcome w) = None
    \<and> textOf (worldOf (fetchWeather numToString lat lon tempElemId descElemId outcome w)) tempElemId
        = Some (lit ''No data available'')
    \<and> textOf (worldOf (fetchWeather numToString lat lon tempElemId descElemId outcome w)) descElemId
        = Some []
    \<and> console (worldOf (fetchWeather numToString lat lon tempElemId descElemId outcome w)) = console w"
proof -
  let ?w1 = "call (HttpGet (weatherUrl numToString lat lon)) w"
  have ex: "elems ?w1 tempElemId \<noteq> None" "elems ?w1 descElemId \<noteq> None"
    and c: "console ?w1 = console w"
    using assms(1,2) by (simp_all add: call_def)
  let ?r = "andThen (setTextContent tempElemId (lit ''No data available'') ?w1)
     (setTextContent descElemId [])"
  have body: "fetchWeather_body numToString lat lon tempElemId descElemId outcome w = ?r"
    using assms(4-7) by (simp add: fetchWeather_body_def)
  with write_two(1) [OF ex]
  have "fetchWeather numToString lat lon tempElemId descElemId outcome w = ?r"
    by (simp add: fetchWeather_not_caught)
  then show ?thesis
    using write_two(1,3,5) [OF ex] write_two(4) [OF ex assms(3)] c by simp
qed

text \<open>A payload without current conditions on the page as loaded.\<close>

theorem fetchWeather_no_data_witness:
  "elems page (lit ''aarhus-temp'') \<noteq> None \<and> elems page (lit ''aarhus-desc'') \<noteq> None
   \<and> lit ''aarhus-temp'' \<noteq> lit ''aarhus-desc''
   \<and> thrown (fetchWeather id (lit ''56.1572'') (lit ''10.2107'') (lit ''aarhus-temp'') (lit ''aarhus-desc'')
        (Resolved \<lparr>ok = True, json = Resolved (JsonData \<lparr>current_weather = None\<rparr>)\<rparr>) page) = None
   \<and> textOf (worldOf (fetchWeather id (lit ''56.1572'') (lit ''10.2107'') (lit ''aarhus-temp'') (lit ''aarhus-desc'')
        (Resolved \<lparr>ok = True, json = Resolved (JsonData \<lparr>current_weather = None\<rparr>)\<rparr>) page)) (lit ''aarhus-temp'')
       = Some (lit ''No data available'')
   \<and> textOf (worldOf (fetchWeather id (lit ''56.1572'') (lit ''10.2107'') (lit ''aarhus-temp'') (lit ''aarhus-desc'')
        (Resolved \<lparr>ok = True, json = Resolved (JsonData \<lparr>current_weather = None\<rparr>)\<rparr>) page)) (lit ''aarhus-desc'')
       = Some []
   \<and> console (worldOf (fetchWeather id (lit ''56.1572'') (lit ''10.2107'') (lit ''aarhus-temp'') (lit ''aarhus-desc'')
        (Resolved \<lparr>ok = True, json = Resolved (JsonData \<lparr>current_weather = None\<rparr>)\<rparr>) page)) = []"
proof -
  have t: "elems page (lit ''aarhus-temp'') \<noteq> None" and d: "elems page (lit ''aarhus-desc'') \<noteq> None"
    by (simp_all add: page_slots)
  have c: "console page = []" by (simp add: page_def)
  have "ok \<lparr>ok = True, json = Resolved (JsonData
      \<lparr>current_weather = None :: jsstring current_conditions option\<rparr>)\<rparr>" by simp
  from fetchWeather_no_data [OF t d page_slots(3) refl this, where numToString = id and lat = "lit ''56.1572''"
      and lon = "lit ''10.2107''" and data = "\<lparr>current_weather = None\<rparr>"]
  show ?thesis using t d c page_slots(3) by simp
qed

lemma events_slot: "elems page (lit ''events'') = Some blank"
  by (simp add: page_def lit_def)

text \<open>
  The calendar viewer has no such branch. A response whose \<open>items\<close> are absent ends in
  the \<open>catch\<close> of \<open>listUpcomingEvents\<close>: the list is left empty and an error is logged,
  where a response with zero events shows the placeholder and logs nothing.
\<close>

theorem listing_items_absent_counterexample:
  "console (worldOf (listUpcomingEvents (lit ''2026-01-01T00:00:00.000Z'') plainLocale
      (Resolved \<lparr>result = \<lparr>items = None\<rparr>\<rparr>) page))
     = [ConsoleError (lit ''Error fetching events'') TypeError]
   \<and> itemsOf (worldOf (listUpcomingEvents (lit ''2026-01-01T00:00:00.000Z'') plainLocale
      (Resolved \<lparr>result = \<lparr>items = None\<rparr>\<rparr>) page)) (lit ''events'') = Some []
   \<and> console (worldOf (listUpcomingEvents (lit ''2026-01-01T00:00:00.000Z'') plainLocale
      (Resolved \<lparr>result = \<lparr>items = Some []\<rparr>\<rparr>) page)) = []
   \<and> itemsOf (worldOf (listUpcomingEvents (lit ''2026-01-01T00:00:00.000Z'') plainLocale
      (Resolved \<lparr>result = \<lparr>items = Some []\<rparr>\<rparr>) page)) (lit ''events'')
     = Some [\<lparr>li_text = lit ''No upcoming events found.'', li_buttons = []\<rparr>]"
  by (simp add: listUpcomingEvents_def showEvents_def clearInnerHTML_def appendChild_def
      andThen_def tryCatch_def call_def consoleError_def itemsOf_def events_slot blank_def)
    (simp add: page_def)

section \<open>Properties of the notes\<close>

lemma trim_buy_milk: "trim (lit ''Buy milk'') = lit ''Buy milk''"
  by (simp add: trim_def lit_def isWhiteSpace_def)

lemma trim_spaces: "trim (lit ''   '') = []"
  by (simp add: trim_def lit_def isWhiteSpace_def)

text \<open>What the save handler does, by the input's text and the outcome of \<open>addDoc\<close>.\<close>

lemma saveNoteClick_empty:
  "elems w (lit ''note-input'') = Some input \<Longrightarrow> trim (val input) = [] \<Longrightarrow>
   saveNoteClick notesCol outcome w = Returned w"
  by (simp add: saveNoteClick_def)

lemma saveNoteClick_resolved:
  "elems w (lit ''note-input'') = Some input \<Longrightarrow> trim (val input) \<noteq> [] \<Longrightarrow>
   saveNoteClick notesCol (Resolved u) w =
     Returned (w\<lparr>requests := requests w @ [AddDoc notesCol \<lparr>noteText = trim (val input)\<rparr>],
                 elems := (elems w)(lit ''note-input'' \<mapsto> input\<lparr>val := []\<rparr>)\<rparr>)"
  by (simp add: saveNoteClick_def Let_def tryCatch_def call_def)

lemma saveNoteClick_rejected:
  "elems w (lit ''note-input'') = Some input \<Longrightarrow> trim (val input) \<noteq> [] \<Longrightarrow>
   saveNoteClick notesCol (Rejected e) w =
     Returned (w\<lparr>requests := requests w @ [AddDoc notesCol \<lparr>noteText = trim (val input)\<rparr>],
                 console := console w @ [ConsoleError (lit ''Error adding note:'') e]\<rparr>)"
  by (simp add: saveNoteClick_def Let_def tryCatch_def call_def consoleError_def)

text \<open>A click on an enabled element that holds one listener and no \<open>onclick\<close>.\<close>

lemma fire_Click_one_listener:
  "elems w elemId = Some e \<Longrightarrow> clickListeners e = [h] \<Longrightarrow> onclick e = None \<Longrightarrow> \<not> disabled e \<Longrightarrow>
   fire numToString toLocaleString (Click elemId outcome) w = settle (runHandler h outcome w)"
  by (simp add: fire_def)

text \<open>
  C5. On a page with Firestore there and a save button that holds no listener yet,
  \<open>initNotes\<close> attaches to the save button exactly one click listener, the save handler
  for the notes collection. A note submission is a click on the save button of a page
  where that listener is the button's only handler and the button is enabled: when the
  text of the note input, trimmed, is empty, the click leaves the state unchanged (no
  request, the input as it was); otherwise it issues exactly one request, the creation
  of a note whose text is the trimmed input, and nothing is left uncaught; when the
  request succeeds the input is cleared, when it fails the page is left as it was (the
  input is not cleared) and the error is logged.
\<close>

theorem saveNoteClick_submission:
  assumes "db w0 = Some d" and "elems w0 (lit ''save-note'') = Some button0"
    and "clickListeners button0 = []"
    and "elems w (lit ''save-note'') = Some saveButton"
    and "clickListeners saveButton = [SaveNoteClick notesCol]"
    and "onclick saveButton = None" and "\<not> disabled saveButton"
    and "elems w (lit ''note-input'') = Some input"
  shows "thrown (initNotes w0) = None
    \<and> map_option clickListeners (elems (worldOf (initNotes w0)) (lit ''save-note''))
        = Some [SaveNoteClick (Collection d (lit ''notes''))]
    \<and> map_option onclick (elems (worldOf (initNotes w0)) (lit ''save-note''))
        = Some (onclick button0)
    \<and> map_option disabled (elems (worldOf (initNotes w0)) (lit ''save-note''))
        = Some (disabled button0)
    \<and> requests (worldOf (initNotes w0)) = requests w0
    \<and> (trim (val input) = [] \<longrightarrow>
         fire numToString toLocaleString (Click (lit ''save-note'') outcome) w = w)
    \<and> (trim (val input) \<noteq> [] \<longrightarrow>
         requests (fire numToString toLocaleString (Click (lit ''save-note'') outcome) w)
           = requests w @ [AddDoc notesCol \<lparr>noteText = trim (val input)\<rparr>]
       \<and> uncaught (fire numToString toLocaleString (Click (lit ''save-note'') outcome) w)
           = uncaught w
       \<and> (case outcome of
            Resolved u \<Rightarrow>
              map_option val
                (elems (fire numToString toLocaleString (Click (lit ''save-note'') outcome) w)
                   (lit ''note-input''))
                = Some []
              \<and> console (fire numToString toLocaleString (Click (lit ''save-note'') outcome) w)
                  = console w
          | Rejected e \<Rightarrow>
              elems (fire numToString toLocaleString (Click (lit ''save-note'') outcome) w)
                = elems w
              \<and> console (fire numToString toLocaleString (Click (lit ''save-note'') outcome) w)
                  = console w @ [ConsoleError (lit ''Error adding note:'') e]))"
proof -
  have init: "initNotes w0 = Returned (w0\<lparr>subscriptions := subscriptions w0 @ [Collection d (lit ''notes'')],
      elems := (elems w0)(lit ''save-note'' \<mapsto>
        button0\<lparr>clickListeners := [SaveNoteClick (Collection d (lit ''notes''))]\<rparr>)\<rparr>)"
    using assms(1-3) by (simp add: initNotes_def Let_def)
  have click: "fire numToString toLocaleString (Click (lit ''save-note'') outcome) w
      = settle (saveNoteClick notesCol outcome w)"
    using fire_Click_one_listener [OF assms(4-7)] by (simp add: runHandler_def)
  show ?thesis
  proof (cases "trim (val input) = []")
    case True
    with click saveNoteClick_empty [OF assms(8)] show ?thesis
      by (simp add: init settle_def)
  next
    case False
    show ?thesis
    proof (cases outcome)
      case (Resolved u)
      with click saveNoteClick_resolved [OF assms(8) False] False show ?thesis
        by (simp add: init settle_def)
    next
      case (Rejected e)
      with click saveNoteClick_rejected [OF assms(8) False] False show ?thesis
        by (simp add: init settle_def)
    qed
  qed
qed

lemma pageNotesTyped_facts:
  "elems (pageNotesTyped s) (lit ''save-note'')
     = Some (blank\<lparr>clickListeners := [SaveNoteClick (Collection Firestore (lit ''notes''))]\<rparr>)"
  "elems (pageNotesTyped s) (lit ''note-input'') = Some (blank\<lparr>val := s\<rparr>)"
  "requests (pageNotesTyped s) = []"
  by (simp_all add: pageNotesTyped_def pageNotes_def initNotes_def Let_def page_def lit_def blank_def)

lemma page_with_db:
  "db (page\<lparr>db := Some Firestore\<rparr>) = Some Firestore"
  "elems (page\<lparr>db := Some Firestore\<rparr>) (lit ''save-note'') = Some blank"
  "clickListeners blank = []" "onclick blank = None" "\<not> disabled blank"
  by (simp_all add: page_def lit_def blank_def)

text \<open>
  \<open>initNotes\<close> on the page as loaded with Firestore there; then a click on the save
  button with \<open>Buy milk\<close> typed in, and a click with three spaces typed in.
\<close>

theorem saveNoteClick_submission_witness:
  "db (page\<lparr>db := Some Firestore\<rparr>) = Some Firestore
   \<and> elems (page\<lparr>db := Some Firestore\<rparr>) (lit ''save-note'') = Some blank
   \<and> clickListeners blank = []
   \<and> map_option clickListeners
        (elems (worldOf (initNotes (page\<lparr>db := Some Firestore\<rparr>))) (lit ''save-note''))
       = Some [SaveNoteClick (Collection Firestore (lit ''notes''))]
   \<and> elems (pageNotesTyped (lit ''Buy milk'')) (lit ''save-note'')
       = Some (blank\<lparr>clickListeners := [SaveNoteClick (Collection Firestore (lit ''notes''))]\<rparr>)
   \<and> elems (pageNotesTyped (lit ''Buy milk'')) (lit ''note-input'')
       = Some (blank\<lparr>val := lit ''Buy milk''\<rparr>)
   \<and> trim (val (blank\<lparr>val := lit ''Buy milk''\<rparr>)) \<noteq> []
   \<and> requests (fire id plainLocale (Click (lit ''save-note'') (Resolved ()))
        (pageNotesTyped (lit ''Buy milk'')))
       = [AddDoc (Collection Firestore (lit ''notes'')) \<lparr>noteText = lit ''Buy milk''\<rparr>]
   \<and> map_option val (elems (fire id plainLocale (Click (lit ''save-note'') (Resolved ()))
        (pageNotesTyped (lit ''Buy milk''))) (lit ''note-input'')) = Some []
   \<and> elems (pageNotesTyped (lit ''   '')) (lit ''note-input'')
       = Some (blank\<lparr>val := lit ''   ''\<rparr>)
   \<and> trim (val (blank\<lparr>val := lit ''   ''\<rparr>)) = []
   \<and> fire id plainLocale (Click (lit ''save-note'') (Resolved ())) (pageNotesTyped (lit ''   ''))
       = pageNotesTyped (lit ''   '')"
proof -
  let ?b = "blank\<lparr>clickListeners := [SaveNoteClick (Collection Firestore (lit ''notes''))]\<rparr>"
  have b: "clickListeners ?b = [SaveNoteClick (Collection Firestore (lit ''notes''))]"
    "onclick ?b = None" "\<not> disabled ?b"
    by (simp_all add: blank_def)
  note t = saveNoteClick_submission [OF page_with_db(1,2,3) pageNotesTyped_facts(1) b
      pageNotesTyped_facts(2), where numToString = id and toLocaleString = plainLocale
      and outcome = "Resolved ()"]
  have p: "elems page (lit ''save-note'') = Some blank" by (simp add: page_def lit_def)
  from t [of "lit ''Buy milk''"] t [of "lit ''   ''"] show ?thesis
    by (simp add: trim_buy_milk trim_spaces pageNotesTyped_facts page_with_db p)
qed

lemma appendNotes_children:
  "elems w (lit ''notes-list'') = Some e \<Longrightarrow>
   appendNotes ds w =
     Returned (w\<lparr>elems := (elems w)(lit ''notes-list'' \<mapsto> e\<lparr>children := children e @ map noteItem ds\<rparr>)\<rparr>)"
proof (induction ds arbitrary: w e)
  case Nil
  then have "(elems w)(lit ''notes-list'' \<mapsto> e) = elems w" by (simp add: fun_upd_idem)
  then show ?case by simp
next
  case (Cons d ds)
  let ?e1 = "e\<lparr>children := children e @ [noteItem d]\<rparr>"
  let ?w1 = "w\<lparr>elems := (elems w)(lit ''notes-list'' \<mapsto> ?e1)\<rparr>"
  have "elems ?w1 (lit ''notes-list'') = Some ?e1" by simp
  from Cons.IH [OF this] Cons.prems show ?case
    by (simp add: appendChild_def andThen_def fun_eq_iff)
qed

lemma renderNotes_rebuilds:
  "elems w (lit ''notes-list'') = Some e \<Longrightarrow>
   renderNotes snapshot w =
     Returned (w\<lparr>elems := (elems w)(lit ''notes-list'' \<mapsto>
       e\<lparr>textContent := [], children := map noteItem snapshot\<rparr>)\<rparr>)"
proof -
  assume e: "elems w (lit ''notes-list'') = Some e"
  let ?e0 = "e\<lparr>textContent := [], children := []\<rparr>"
  let ?w0 = "w\<lparr>elems := (elems w)(lit ''notes-list'' \<mapsto> ?e0)\<rparr>"
  have "elems ?w0 (lit ''notes-list'') = Some ?e0" by simp
  from appendNotes_children [OF this, of snapshot] e show ?thesis
    by (simp add: renderNotes_def clearInnerHTML_def andThen_def)
qed

lemma deleteNoteClick_requests:
  "db w = Some d \<Longrightarrow>
   requests (settle (deleteNoteClick noteId outcome w)) = requests w @ [DeleteDoc (Doc d (lit ''notes'') noteId)]"
  by (cases outcome) (simp_all add: deleteNoteClick_def tryCatch_def call_def consoleError_def settle_def)

text \<open>
  C6. With the notes list on the page, \<open>renderNotes\<close> returns with the list holding,
  whatever it held before, exactly one item for each document of the snapshot, in the
  snapshot's order (none for an empty snapshot): the item shows the document's text and
  carries a \<open>Delete\<close> button, and a click on the button of the \<open>i\<close>-th item issues
  exactly one request, the deletion of the document with the \<open>i\<close>-th identifier. A
  snapshot delivered to the listener that \<open>initNotes\<close> registers does just this.
\<close>

theorem renderNotes_snapshot:
  assumes "elems w (lit ''notes-list'') \<noteq> None"
  shows "thrown (renderNotes snapshot w) = None
    \<and> itemsOf (worldOf (renderNotes snapshot w)) (lit ''notes-list'')
        = Some (map (\<lambda>docSnap.
             \<lparr>li_text = noteText (docData docSnap),
              li_buttons = [\<lparr>label = lit ''Delete'', onClick = DeleteNoteClick (docId docSnap)\<rparr>]\<rparr>)
           snapshot)
    \<and> (\<forall>i d outcome. i < length snapshot \<and> db w = Some d \<longrightarrow>
          requests (fire numToString toLocaleString (ClickButton (lit ''notes-list'') i 0 outcome)
                      (worldOf (renderNotes snapshot w)))
            = requests w @ [DeleteDoc (Doc d (lit ''notes'') (docId (snapshot ! i)))])
    \<and> (\<forall>notesCol. subscriptions w = [notesCol] \<longrightarrow>
          fire numToString toLocaleString (SnapshotDelivered snapshot) w
            = worldOf (renderNotes snapshot w))"
proof -
  from assms obtain e where e: "elems w (lit ''notes-list'') = Some e" by blast
  let ?w' = "w\<lparr>elems := (elems w)(lit ''notes-list'' \<mapsto>
       e\<lparr>textContent := [], children := map noteItem snapshot\<rparr>)\<rparr>"
  have r: "renderNotes snapshot w = Returned ?w'" by (rule renderNotes_rebuilds [OF e])
  have "requests (fire numToString toLocaleString (ClickButton (lit ''notes-list'') i 0 outcome) ?w')
      = requests w @ [DeleteDoc (Doc d (lit ''notes'') (docId (snapshot ! i)))]"
    if "i < length snapshot" "db w = Some d" for i d outcome
  proof -
    have "db ?w' = Some d" using that(2) by simp
    from deleteNoteClick_requests [OF this, of "docId (snapshot ! i)" outcome] that(1)
    show ?thesis by (simp add: fire_def runHandler_def noteItem_def)
  qed
  moreover have "fire numToString toLocaleString (SnapshotDelivered snapshot) w = ?w'"
    if "subscriptions w = [notesCol]" for notesCol
    using that by (simp add: fire_def r settle_def)
  ultimately show ?thesis
    by (simp add: r itemsOf_def noteItem_def)
qed

lemma pageNotes_facts:
  "elems pageNotes (lit ''notes-list'') = Some blank"
  "db pageNotes = Some Firestore"
  "subscriptions pageNotes = [Collection Firestore (lit ''notes'')]"
  "requests pageNotes = []"
  by (simp_all add: pageNotes_def initNotes_def Let_def page_def lit_def)

text \<open>
  A snapshot of two notes delivered after \<open>initNotes\<close>, a click on the second item's
  button, and an empty snapshot delivered after it.
\<close>

theorem renderNotes_snapshot_witness:
  "elems pageNotes (lit ''notes-list'') \<noteq> None
   \<and> thrown (renderNotes twoNotes pageNotes) = None
   \<and> itemsOf (worldOf (renderNotes twoNotes pageNotes)) (lit ''notes-list'')
       = Some [\<lparr>li_text = lit ''Buy milk'',
                li_buttons = [\<lparr>label = lit ''Delete'', onClick = DeleteNoteClick (lit ''a1'')\<rparr>]\<rparr>,
               \<lparr>li_text = lit ''Call home'',
                li_buttons = [\<lparr>label = lit ''Delete'', onClick = DeleteNoteClick (lit ''b2'')\<rparr>]\<rparr>]
   \<and> 1 < length twoNotes \<and> db pageNotes = Some Firestore
   \<and> requests (fire id plainLocale (ClickButton (lit ''notes-list'') 1 0 (Resolved ()))
                (worldOf (renderNotes twoNotes pageNotes)))
       = [DeleteDoc (Doc Firestore (lit ''notes'') (lit ''b2''))]
   \<and> subscriptions pageNotes = [Collection Firestore (lit ''notes'')]
   \<and> fire id plainLocale (SnapshotDelivered twoNotes) pageNotes
       = worldOf (renderNotes twoNotes pageNotes)
   \<and> itemsOf (worldOf (renderNotes [] (worldOf (renderNotes twoNotes pageNotes))))
        (lit ''notes-list'') = Some []"
proof -
  have a: "elems pageNotes (lit ''notes-list'') \<noteq> None" by (simp add: pageNotes_facts)
  have l: "1 < length twoNotes \<and> db pageNotes = Some Firestore"
    by (simp add: twoNotes_def pageNotes_facts)
  note t = renderNotes_snapshot [OF a, of twoNotes id plainLocale]
  from t have b: "elems (worldOf (renderNotes twoNotes pageNotes)) (lit ''notes-list'') \<noteq> None"
    by (auto simp: itemsOf_def)
  note clicks = conjunct1 [OF conjunct2 [OF conjunct2 [OF t]]]
  note delivered = conjunct2 [OF conjunct2 [OF conjunct2 [OF t]]]
  from clicks [THEN spec, THEN spec, THEN spec, THEN mp, OF l, of "Resolved ()"]
  have c: "requests (fire id plainLocale (ClickButton (lit ''notes-list'') 1 0 (Resolved ()))
                (worldOf (renderNotes twoNotes pageNotes)))
       = [DeleteDoc (Doc Firestore (lit ''notes'') (lit ''b2''))]"
    by (simp add: pageNotes_facts twoNotes_def)
  from delivered [THEN spec, THEN mp, OF pageNotes_facts(3)]
  have d: "fire id plainLocale (SnapshotDelivered twoNotes) pageNotes
       = worldOf (renderNotes twoNotes pageNotes)" .
  from t renderNotes_snapshot [OF b, of "[]" id plainLocale] a l c d pageNotes_facts(3)
  show ?thesis by (simp add: twoNotes_def)
qed

section \<open>Properties of the calendar viewer\<close>

lemma appendEvents_children:
  "elems w (lit ''events'') = Some e \<Longrightarrow>
   appendEvents toLocaleString events w =
     Returned (w\<lparr>elems := (elems w)(lit ''events'' \<mapsto>
       e\<lparr>children := children e @ map (eventItem toLocaleString) events\<rparr>)\<rparr>)"
proof (induction events arbitrary: w e)
  case Nil
  then have "(elems w)(lit ''events'' \<mapsto> e) = elems w" by (simp add: fun_upd_idem)
  then show ?case by simp
next
  case (Cons event events)
  let ?e1 = "e\<lparr>children := children e @ [eventItem toLocaleString event]\<rparr>"
  let ?w1 = "w\<lparr>elems := (elems w)(lit ''events'' \<mapsto> ?e1)\<rparr>"
  have "elems ?w1 (lit ''events'') = Some ?e1" by simp
  from Cons.IH [OF this] Cons.prems show ?case
    by (simp add: appendChild_def andThen_def fun_eq_iff)
qed

lemma showEvents_items:
  assumes "elems w (lit ''events'') = Some e" and "items (result response) = Some events"
  shows "showEvents toLocaleString response w =
     Returned (w\<lparr>elems := (elems w)(lit ''events'' \<mapsto>
       e\<lparr>textContent := [],
         children := (if events = []
                      then [\<lparr>li_text = lit ''No upcoming events found.'', li_buttons = []\<rparr>]
                      else map (eventItem toLocaleString) events)\<rparr>)\<rparr>)"
proof -
  let ?e0 = "e\<lparr>textContent := [], children := []\<rparr>"
  let ?w0 = "w\<lparr>elems := (elems w)(lit ''events'' \<mapsto> ?e0)\<rparr>"
  have "elems ?w0 (lit ''events'') = Some ?e0" by simp
  from appendEvents_children [OF this, of toLocaleString events] assms show ?thesis
    by (simp add: showEvents_def clearInnerHTML_def appendChild_def andThen_def fun_eq_iff)
qed

lemma eventWhen_cases:
  "(\<forall>s. dateTime (start event) = Some s \<and> s \<noteq> [] \<longrightarrow> eventWhen event = Some s)
   \<and> (dateTime (start event) = None \<longrightarrow> eventWhen event = date (start event))
   \<and> (dateTime (start event) = Some [] \<longrightarrow> eventWhen event = date (start event))"
  by (simp add: eventWhen_def)

lemma listUpcomingEvents_shown:
  assumes "elems w (lit ''events'') = Some e" and "items (result response) = Some events"
  shows "listUpcomingEvents now toLocaleString (Resolved response) w =
     Returned (w\<lparr>elems := (elems w)(lit ''events'' \<mapsto>
         e\<lparr>textContent := [],
           children := (if events = []
                        then [\<lparr>li_text = lit ''No upcoming events found.'', li_buttons = []\<rparr>]
                        else map (eventItem toLocaleString) events)\<rparr>),
       requests := requests w @ [EventsList \<lparr>calendarId = lit ''primary'', timeMin = now,
            showDeleted = False, singleEvents = True, maxResults = 10,
            orderBy = lit ''startTime''\<rparr>]\<rparr>)"
proof -
  let ?q = "EventsList \<lparr>calendarId = lit ''primary'', timeMin = now,
            showDeleted = False, singleEvents = True, maxResults = 10,
            orderBy = lit ''startTime''\<rparr>"
  from assms(1) have e: "elems (call ?q w) (lit ''events'') = Some e" by (simp add: call_def)
  from showEvents_items [OF e assms(2), of toLocaleString] show ?thesis
    by (simp add: listUpcomingEvents_def tryCatch_def call_def)
qed

text \<open>
  C7. With the events list on the page and a listing response that holds its items, at
  most the 10 that the request asks for (\<open>maxResults: 10\<close>): when there are no events,
  the list shows exactly one item, the placeholder \<open>No upcoming events found.\<close>;
  otherwise it shows one item for each event of the response, in the order received,
  with the text \<open><formatted local start> \<emdash> <summary>\<close>, where the start is the date-time
  field when the event has one, and the date-only field otherwise (a date-time field
  that is the empty string counts as none); the list has at most 10 items.
\<close>

theorem listUpcomingEvents_renders:
  assumes "elems w (lit ''events'') \<noteq> None"
    and "outcome = Resolved response" and "items (result response) = Some events"
    and "length events \<le> 10"
  shows "thrown (listUpcomingEvents now toLocaleString outcome w) = None
    \<and> (events = [] \<longrightarrow>
         itemsOf (worldOf (listUpcomingEvents now toLocaleString outcome w)) (lit ''events'')
           = Some [\<lparr>li_text = lit ''No upcoming events found.'', li_buttons = []\<rparr>])
    \<and> (events \<noteq> [] \<longrightarrow>
         itemsOf (worldOf (listUpcomingEvents now toLocaleString outcome w)) (lit ''events'')
           = Some (map (\<lambda>event.
                \<lparr>li_text = toLocaleString (eventWhen event) @ [0x20, 0x2014, 0x20] @ summary event,
                 li_buttons = []\<rparr>) events))
    \<and> (\<forall>event \<in> set events.
          (\<forall>s. dateTime (start event) = Some s \<and> s \<noteq> [] \<longrightarrow> eventWhen event = Some s)
          \<and> (dateTime (start event) = None \<longrightarrow> eventWhen event = date (start event))
          \<and> (dateTime (start event) = Some [] \<longrightarrow> eventWhen event = date (start event)))
    \<and> requests (worldOf (listUpcomingEvents now toLocaleString outcome w))
        = requests w @ [EventsList \<lparr>calendarId = lit ''primary'', timeMin = now,
            showDeleted = False, singleEvents = True, maxResults = 10,
            orderBy = lit ''startTime''\<rparr>]
    \<and> (\<exists>shown.
          itemsOf (worldOf (listUpcomingEvents now toLocaleString outcome w)) (lit ''events'')
            = Some shown
          \<and> length shown = (if events = [] then 1 else length events)
          \<and> length shown \<le> 10)"
proof -
  from assms(1) obtain e where e: "elems w (lit ''events'') = Some e" by blast
  show ?thesis
    unfolding assms(2) listUpcomingEvents_shown [OF e assms(3)] using eventWhen_cases assms(4)
    by (simp add: itemsOf_def eventItem_def)
qed

text \<open>A timed event and an all-day event, and a response with no events.\<close>

theorem listUpcomingEvents_renders_witness:
  "elems page (lit ''events'') \<noteq> None
   \<and> thrown (listUpcomingEvents (lit ''2026-01-01T00:00:00.000Z'') plainLocale
        (Resolved \<lparr>result = \<lparr>items = Some [standup, holiday]\<rparr>\<rparr>) page) = None
   \<and> [standup, holiday] \<noteq> [] \<and> length [standup, holiday] \<le> 10
   \<and> itemsOf (worldOf (listUpcomingEvents (lit ''2026-01-01T00:00:00.000Z'') plainLocale
        (Resolved \<lparr>result = \<lparr>items = Some [standup, holiday]\<rparr>\<rparr>) page)) (lit ''events'')
       = Some [\<lparr>li_text = lit ''2026-01-05T09:00:00+01:00'' @ [0x20, 0x2014, 0x20] @ lit ''Standup'',
                li_buttons = []\<rparr>,
               \<lparr>li_text = lit ''2026-01-06'' @ [0x20, 0x2014, 0x20] @ lit ''Holiday'',
                li_buttons = []\<rparr>]
   \<and> standup \<in> set [standup, holiday]
   \<and> dateTime (start standup) = Some (lit ''2026-01-05T09:00:00+01:00'')
   \<and> eventWhen standup = Some (lit ''2026-01-05T09:00:00+01:00'')
   \<and> holiday \<in> set [standup, holiday]
   \<and> dateTime (start holiday) = None
   \<and> eventWhen holiday = Some (lit ''2026-01-06'')
   \<and> itemsOf (worldOf (listUpcomingEvents (lit ''2026-01-01T00:00:00.000Z'') plainLocale
        (Resolved \<lparr>result = \<lparr>items = Some []\<rparr>\<rparr>) page)) (lit ''events'')
       = Some [\<lparr>li_text = lit ''No upcoming events found.'', li_buttons = []\<rparr>]"
proof -
  have a: "elems page (lit ''events'') \<noteq> None" by (simp add: events_slot)
  have c: "items (result \<lparr>result = \<lparr>items = Some evs\<rparr>\<rparr>) = Some evs" for evs by simp
  have w: "eventWhen standup = Some (lit ''2026-01-05T09:00:00+01:00'')"
    "eventWhen holiday = Some (lit ''2026-01-06'')"
    "dateTime (start standup) = Some (lit ''2026-01-05T09:00:00+01:00'')"
    "dateTime (start holiday) = None"
    "summary standup = lit ''Standup''" "summary holiday = lit ''Holiday''"
    by (simp_all add: eventWhen_def standup_def holiday_def)
  have l: "length [standup, holiday] \<le> 10" "length ([] :: calendar_event list) \<le> 10"
    by simp_all
  from listUpcomingEvents_renders [OF a refl c [of "[standup, holiday]"] l(1),
      where now = "lit ''2026-01-01T00:00:00.000Z''" and toLocaleString = plainLocale]
    listUpcomingEvents_renders [OF a refl c [of "[]"] l(2),
      where now = "lit ''2026-01-01T00:00:00.000Z''" and toLocaleString = plainLocale]
  show ?thesis using a by (simp add: w plainLocale_def)
qed

section \<open>The notes when the store is missing\<close>

lemma notesUntouched_refl: "notesUntouched w w"
  by (simp add: notesUntouched_def)

lemma notesUntouched_trans:
  "notesUntouched a b \<Longrightarrow> notesUntouched b c \<Longrightarrow> notesUntouched a c"
  by (simp add: notesUntouched_def)

text \<open>Replacing an element by one that holds no new handler.\<close>

lemma noSaveHandler_update:
  assumes "noSaveHandler w" and "elems w i = Some e" and "set (handlersOf e') \<subseteq> set (handlersOf e) \<union> H"
    and "\<forall>h \<in> H. \<not> isSaveHandler h"
  shows "noSaveHandler (w\<lparr>elems := (elems w)(i \<mapsto> e')\<rparr>)"
  using assms unfolding noSaveHandler_def by (auto split: if_splits)

lemma notesUntouched_update:
  assumes "elems w i = Some e" and "set (handlersOf e') \<subseteq> set (handlersOf e) \<union> H"
    and "\<forall>h \<in> H. \<not> isSaveHandler h"
  shows "notesUntouched w (w\<lparr>elems := (elems w)(i \<mapsto> e')\<rparr>)"
  using noSaveHandler_update [OF _ assms] by (simp add: notesUntouched_def)

lemma notesUntouched_setDisplay: "notesUntouched w (worldOf (setDisplay i v w))"
proof (cases "elems w i")
  case None
  then show ?thesis by (simp add: setDisplay_def notesUntouched_refl)
next
  case (Some e)
  have "set (handlersOf (e\<lparr>display := v\<rparr>)) \<subseteq> set (handlersOf e) \<union> {}"
    by (simp add: handlersOf_def)
  from notesUntouched_update [OF Some this] Some show ?thesis by (simp add: setDisplay_def)
qed

lemma notesUntouched_clearInnerHTML: "notesUntouched w (worldOf (clearInnerHTML i w))"
proof (cases "elems w i")
  case None
  then show ?thesis by (simp add: clearInnerHTML_def notesUntouched_refl)
next
  case (Some e)
  have "set (handlersOf (e\<lparr>textContent := [], children := []\<rparr>)) \<subseteq> set (handlersOf e) \<union> {}"
    by (auto simp: handlersOf_def)
  from notesUntouched_update [OF Some this] Some show ?thesis by (simp add: clearInnerHTML_def)
qed

lemma notesUntouched_appendChild:
  assumes "\<forall>b \<in> set (li_buttons item). \<not> isSaveHandler (onClick b)"
  shows "notesUntouched w (worldOf (appendChild i item w))"
proof (cases "elems w i")
  case None
  then show ?thesis by (simp add: appendChild_def notesUntouched_refl)
next
  case (Some e)
  have "set (handlersOf (e\<lparr>children := children e @ [item]\<rparr>))
      \<subseteq> set (handlersOf e) \<union> onClick ` set (li_buttons item)"
    by (auto simp: handlersOf_def)
  from notesUntouched_update [OF Some this] assms Some show ?thesis by (simp add: appendChild_def)
qed

lemma notesUntouched_andThen:
  assumes "notesUntouched w (worldOf r)" and "\<And>w1. notesUntouched w1 (worldOf (f w1))"
  shows "notesUntouched w (worldOf (andThen r f))"
  using assms by (cases r) (auto simp: andThen_def intro: notesUntouched_trans)

lemma notesUntouched_tryCatch:
  assumes "notesUntouched w (worldOf r)" and "\<And>e w1. notesUntouched w1 (worldOf (h e w1))"
  shows "notesUntouched w (worldOf (tryCatch r h))"
  using assms by (cases r) (auto simp: tryCatch_def intro: notesUntouched_trans)

lemma notesUntouched_settle: "notesUntouched w (worldOf r) \<Longrightarrow> notesUntouched w (settle r)"
  by (cases r) (simp_all add: settle_def notesUntouched_def noSaveHandler_def)

lemma notesUntouched_consoleError: "notesUntouched w (consoleError msg e w)"
  by (simp add: consoleError_def notesUntouched_def noSaveHandler_def)

lemma notesUntouched_call: "\<not> isNoteMutation r \<Longrightarrow> notesUntouched w (call r w)"
  by (simp add: call_def notesUntouched_def noSaveHandler_def)

lemma notesUntouched_appendEvents:
  "notesUntouched w (worldOf (appendEvents toLocaleString events w))"
proof (induction events arbitrary: w)
  case Nil
  show ?case by (simp add: notesUntouched_refl)
next
  case (Cons event events)
  show ?case
    by (simp, rule notesUntouched_andThen, rule notesUntouched_appendChild)
       (simp_all add: eventItem_def Cons.IH)
qed

lemma notesUntouched_showEvents:
  "notesUntouched w (worldOf (showEvents toLocaleString response w))"
  unfolding showEvents_def
  by (rule notesUntouched_andThen, rule notesUntouched_clearInnerHTML)
     (auto simp: notesUntouched_refl notesUntouched_appendEvents
        intro!: notesUntouched_appendChild split: option.splits)

lemma notesUntouched_listUpcomingEvents:
  "notesUntouched w (worldOf (listUpcomingEvents now toLocaleString outcome w))"
  unfolding listUpcomingEvents_def Let_def
proof (rule notesUntouched_tryCatch)
  let ?q = "EventsList \<lparr>calendarId = lit ''primary'', timeMin = now, showDeleted = False,
                    singleEvents = True, maxResults = 10, orderBy = lit ''startTime''\<rparr>"
  have c: "notesUntouched w (call ?q w)" by (rule notesUntouched_call) simp
  show "notesUntouched w (worldOf (case outcome of
          Rejected e \<Rightarrow> Threw e (call ?q w)
        | Resolved response \<Rightarrow> showEvents toLocaleString response (call ?q w)))"
    using c notesUntouched_trans [OF c notesUntouched_showEvents]
    by (cases outcome) simp_all
next
  fix e w1 show "notesUntouched w1 (worldOf (Returned (consoleError (lit ''Error fetching events'') e w1)))"
    by (simp add: notesUntouched_consoleError)
qed

lemma notesUntouched_updateSigninStatus:
  "notesUntouched w (worldOf (updateSigninStatus now toLocaleString isSignedIn outcome w))"
  unfolding updateSigninStatus_def
  by (auto intro!: notesUntouched_andThen notesUntouched_setDisplay notesUntouched_clearInnerHTML
        notesUntouched_listUpcomingEvents)

lemma notesUntouched_setOnclick:
  assumes "\<not> isSaveHandler h"
  shows "notesUntouched w (worldOf (setOnclick i h w))"
proof (cases "elems w i")
  case None
  then show ?thesis by (simp add: setOnclick_def notesUntouched_refl)
next
  case (Some e)
  have "set (handlersOf (e\<lparr>onclick := Some h\<rparr>)) \<subseteq> set (handlersOf e) \<union> {h}"
    by (auto simp: handlersOf_def)
  from notesUntouched_update [OF Some this] assms Some show ?thesis by (simp add: setOnclick_def)
qed

lemma notesUntouched_setTextContent: "notesUntouched w (worldOf (setTextContent i s w))"
proof (cases "elems w i")
  case None
  then show ?thesis by (simp add: setTextContent_def notesUntouched_refl)
next
  case (Some e)
  have "set (handlersOf (e\<lparr>textContent := s, children := []\<rparr>)) \<subseteq> set (handlersOf e) \<union> {}"
    by (auto simp: handlersOf_def)
  from notesUntouched_update [OF Some this]
  have "notesUntouched w (w\<lparr>elems := (elems w)(i \<mapsto> e\<lparr>textContent := s, children := []\<rparr>)\<rparr>)"
    by simp
  then show ?thesis using Some by (simp add: setTextContent_def notesUntouched_def noSaveHandler_def)
qed

lemma notesUntouched_initClient:
  "notesUntouched w (worldOf (initClient now toLocaleString initOutcome signedIn listOutcome w))"
  unfolding initClient_def Let_def
proof (rule notesUntouched_tryCatch)
  let ?w1 = "call (ClientInit \<lparr>apiKey = GOOGLE_API_KEY, clientId = GOOGLE_CLIENT_ID,
                                   discoveryDocs = DISCOVERY_DOCS, scope = SCOPES\<rparr>) w"
  have c: "notesUntouched w ?w1" by (rule notesUntouched_call) simp
  have l: "notesUntouched ?w1 (?w1\<lparr>signinListeners := Suc (signinListeners ?w1)\<rparr>)"
    by (simp add: notesUntouched_def noSaveHandler_def)
  have "notesUntouched (?w1\<lparr>signinListeners := Suc (signinListeners ?w1)\<rparr>)
     (worldOf (andThen
        (updateSigninStatus now toLocaleString signedIn listOutcome
           (?w1\<lparr>signinListeners := Suc (signinListeners ?w1)\<rparr>))
        (\<lambda>w2. andThen (setOnclick (lit ''authorize_button'') HandleAuthClick w2)
                 (setOnclick (lit ''signout_button'') HandleSignoutClick))))"
    by (intro notesUntouched_andThen notesUntouched_updateSigninStatus notesUntouched_setOnclick)
       simp_all
  with c l show "notesUntouched w (worldOf (case initOutcome of
        Rejected e \<Rightarrow> Threw e ?w1
      | Resolved u \<Rightarrow>
          andThen
            (updateSigninStatus now toLocaleString signedIn listOutcome
               (?w1\<lparr>signinListeners := Suc (signinListeners ?w1)\<rparr>))
            (\<lambda>w2. andThen (setOnclick (lit ''authorize_button'') HandleAuthClick w2)
                     (setOnclick (lit ''signout_button'') HandleSignoutClick))))"
    by (cases initOutcome) (auto intro: notesUntouched_trans)
next
  fix e w1
  show "notesUntouched w1 (worldOf (Returned
      (consoleError (lit ''Error initialising Google API client'') e w1)))"
    by (simp add: notesUntouched_consoleError)
qed

lemma notesUntouched_fetchWeather:
  "notesUntouched w (worldOf (fetchWeather numToString lat lon tempElemId descElemId outcome w))"
  unfolding fetchWeather_def
proof (rule notesUntouched_tryCatch)
  let ?w1 = "call (HttpGet (weatherUrl numToString lat lon)) w"
  have c: "notesUntouched w ?w1" by (rule notesUntouched_call) simp
  have two: "notesUntouched ?w1 (worldOf (andThen (setTextContent tempElemId t ?w1)
      (setTextContent descElemId d)))" for t d
    by (intro notesUntouched_andThen notesUntouched_setTextContent)
  show "notesUntouched w (worldOf
      (fetchWeather_body numToString lat lon tempElemId descElemId outcome w))"
    using c notesUntouched_trans [OF c two]
    by (simp add: fetchWeather_body_def Let_def split: promise.splits option.splits body.splits)
next
  fix e w1
  have "notesUntouched w1 (consoleError (lit ''Error fetching weather:'') e w1)"
    by (rule notesUntouched_consoleError)
  moreover have "notesUntouched (consoleError (lit ''Error fetching weather:'') e w1)
      (worldOf (andThen (setTextContent tempElemId (lit ''Error fetching weather'')
                 (consoleError (lit ''Error fetching weather:'') e w1))
         (setTextContent descElemId [])))"
    by (intro notesUntouched_andThen notesUntouched_setTextContent)
  ultimately show "notesUntouched w1 (worldOf (andThen
      (setTextContent tempElemId (lit ''Error fetching weather'')
         (consoleError (lit ''Error fetching weather:'') e w1))
      (setTextContent descElemId [])))"
    by (rule notesUntouched_trans)
qed

lemma notesUntouched_deleteNoteClick:
  "db w = None \<Longrightarrow> notesUntouched w (worldOf (deleteNoteClick noteId outcome w))"
  by (simp add: deleteNoteClick_def tryCatch_def notesUntouched_consoleError)

lemma notesUntouched_handleAuthClick: "notesUntouched w (worldOf (handleAuthClick outcome w))"
  using notesUntouched_call [of SignIn w] by (cases outcome) (simp_all add: handleAuthClick_def)

lemma notesUntouched_handleSignoutClick: "notesUntouched w (worldOf (handleSignoutClick outcome w))"
  using notesUntouched_call [of SignOut w] by (cases outcome) (simp_all add: handleSignoutClick_def)

lemma notesUntouched_runHandler:
  "db w = None \<Longrightarrow> \<not> isSaveHandler h \<Longrightarrow> notesUntouched w (settle (runHandler h outcome w))"
  by (cases h)
     (simp_all add: runHandler_def notesUntouched_settle notesUntouched_deleteNoteClick
        notesUntouched_handleAuthClick notesUntouched_handleSignoutClick)

lemma notesUntouched_handlers:
  "db w = None \<Longrightarrow> \<forall>h \<in> set hs. \<not> isSaveHandler h \<Longrightarrow>
   notesUntouched w (fold (\<lambda>h w'. settle (runHandler h outcome w')) hs w)"
proof (induction hs arbitrary: w)
  case Nil
  show ?case by (simp add: notesUntouched_refl)
next
  case (Cons h hs)
  let ?w1 = "settle (runHandler h outcome w)"
  from Cons.prems have 1: "notesUntouched w ?w1" by (simp add: notesUntouched_runHandler)
  then have "db ?w1 = None" using Cons.prems(1) by (simp add: notesUntouched_def)
  from Cons.IH [OF this] Cons.prems(2) have "notesUntouched ?w1 (fold (\<lambda>h w'. settle (runHandler h outcome w')) hs ?w1)"
    by simp
  with 1 show ?case by (auto intro: notesUntouched_trans)
qed

lemma notesUntouched_funpow:
  "(\<And>w. notesUntouched w (f w)) \<Longrightarrow> notesUntouched w ((f ^^ n) w)"
  by (induction n) (auto intro: notesUntouched_refl notesUntouched_trans)

lemma notesUntouched_fire:
  assumes "db w = None" and "subscriptions w = []" and "noSaveHandler w"
  shows "notesUntouched w (fire numToString toLocaleString ev w)"
proof (cases ev)
  case (Click elemId outcome)
  show ?thesis
  proof (cases "elems w elemId")
    case None
    with Click show ?thesis by (simp add: fire_def notesUntouched_refl)
  next
    case (Some e)
    with assms(3) have "\<forall>h \<in> set (handlersOf e). \<not> isSaveHandler h"
      unfolding noSaveHandler_def by blast
    then have "\<forall>h \<in> set (clickListeners e @ (case onclick e of None \<Rightarrow> [] | Some h \<Rightarrow> [h])).
        \<not> isSaveHandler h"
      by (auto simp: handlersOf_def)
    from notesUntouched_handlers [OF assms(1) this] Click Some show ?thesis
      by (simp add: fire_def notesUntouched_refl)
  qed
next
  case (ClickButton elemId i k outcome)
  show ?thesis
  proof (cases "elems w elemId")
    case None
    with ClickButton show ?thesis by (simp add: fire_def notesUntouched_refl)
  next
    case (Some e)
    with assms(3) have all: "\<forall>h \<in> set (handlersOf e). \<not> isSaveHandler h"
      unfolding noSaveHandler_def by blast
    show ?thesis
    proof (cases "i < length (children e) \<and> k < length (li_buttons (children e ! i))")
      case False
      with ClickButton Some show ?thesis by (auto simp: fire_def notesUntouched_refl)
    next
      case True
      then have "onClick (li_buttons (children e ! i) ! k) \<in> set (handlersOf e)"
        by (auto simp: handlersOf_def intro!: bexI [of _ "children e ! i"])
      with all have "\<not> isSaveHandler (onClick (li_buttons (children e ! i) ! k))" by blast
      from notesUntouched_runHandler [OF assms(1) this] ClickButton Some True show ?thesis
        by (simp add: fire_def)
    qed
  qed
next
  case (SnapshotDelivered snapshot)
  with assms(2) show ?thesis by (simp add: fire_def notesUntouched_refl)
next
  case (SigninChanged isSignedIn now outcome)
  then show ?thesis
    by (simp add: fire_def notesUntouched_funpow notesUntouched_settle
        notesUntouched_updateSigninStatus)
next
  case (GapiLoaded now initOutcome signedIn listOutcome)
  then show ?thesis
    by (simp add: fire_def notesUntouched_settle notesUntouched_initClient)
next
  case (WeatherFetched lat lon tempElemId descElemId outcome)
  then show ?thesis
    by (simp add: fire_def notesUntouched_settle notesUntouched_fetchWeather)
qed

lemma reaches_notesUntouched:
  "reaches numToString toLocaleString w w' \<Longrightarrow> db w = None \<Longrightarrow> subscriptions w = [] \<Longrightarrow> noSaveHandler w \<Longrightarrow>
   notesUntouched w w'"
proof (induction rule: reaches.induct)
  case reaches_here
  show ?case by (rule notesUntouched_refl)
next
  case (reaches_fire w' ev)
  then have u: "notesUntouched w w'" by simp
  with reaches_fire.prems have "db w' = None" "subscriptions w' = []" "noSaveHandler w'"
    by (simp_all add: notesUntouched_def)
  from notesUntouched_trans [OF u notesUntouched_fire [OF this]] show ?case .
qed


lemma initFirebase_fails:
  assumes "isl appOutcome \<or> isl dbOutcome"
  shows "\<exists>e. initFirebase appOutcome dbOutcome w = Returned (consoleWarn
          (lit ''Firebase could not be initialized. Please provide your own configuration.'' @ [0xA])
          e w)"
  using assms by (cases appOutcome; cases dbOutcome) (auto simp: initFirebase_def tryCatch_def)

text \<open>
  C8. When the store failed to initialise (\<open>initializeApp\<close> or \<open>getFirestore\<close> threw, so
  that \<open>db\<close> stays unassigned), on a page that has the save button, no snapshot listener
  and no save handler yet: \<open>initNotes\<close> returns with the save button disabled and
  labelled \<open>Notes unavailable\<close>, registers no snapshot listener and attaches no save
  handler, and issues no request; and whatever follows on the page (clicks, snapshots,
  sign-in changes, \<open>initClient\<close>, weather fetches), no note is ever created or deleted.
\<close>

theorem initNotes_disabled:
  fixes w0 :: world and appOutcome :: "exn + firebaseApp" and dbOutcome :: "exn + firestore"
  defines "w \<equiv> worldOf (initFirebase appOutcome dbOutcome w0)"
  assumes unset: "db w0 = None" and failed: "isl appOutcome \<or> isl dbOutcome"
    and button: "elems w0 (lit ''save-note'') = Some saveButton"
    and nosub: "subscriptions w0 = []" and nosave: "noSaveHandler w0"
  shows "db w = None
    \<and> thrown (initNotes w) = None
    \<and> map_option disabled (elems (worldOf (initNotes w)) (lit ''save-note'')) = Some True
    \<and> textOf (worldOf (initNotes w)) (lit ''save-note'') = Some (lit ''Notes unavailable'')
    \<and> subscriptions (worldOf (initNotes w)) = []
    \<and> map_option clickListeners (elems (worldOf (initNotes w)) (lit ''save-note''))
        = Some (clickListeners saveButton)
    \<and> noSaveHandler (worldOf (initNotes w))
    \<and> requests (worldOf (initNotes w)) = requests w0
    \<and> (\<forall>w'. reaches numToString toLocaleString (worldOf (initNotes w)) w' \<longrightarrow>
          filter isNoteMutation (requests w') = filter isNoteMutation (requests w0))"
proof -
  from initFirebase_fails [OF failed] obtain e where
    "w = consoleWarn (lit ''Firebase could not be initialized. Please provide your own configuration.'' @ [0xA]) e w0"
    unfolding w_def by (metis worldOf.simps(1))
  then have w: "db w = None" "elems w = elems w0" "subscriptions w = []" "requests w = requests w0"
    using unset nosub by (simp_all add: consoleWarn_def)
  let ?b = "saveButton\<lparr>disabled := True, textContent := lit ''Notes unavailable'', children := []\<rparr>"
  let ?w1 = "w\<lparr>elems := (elems w)(lit ''save-note'' \<mapsto> ?b),
               textWrites := textWrites w @ [(lit ''save-note'', lit ''Notes unavailable'')]\<rparr>"
  have r: "initNotes w = Returned ?w1"
    using w button by (simp add: initNotes_def setTextContent_def)
  have "noSaveHandler w" using nosave w(2) by (simp add: noSaveHandler_def)
  moreover have "elems w (lit ''save-note'') = Some saveButton" using w(2) button by simp
  moreover have "set (handlersOf ?b) \<subseteq> set (handlersOf saveButton) \<union> {}"
    by (auto simp: handlersOf_def)
  ultimately have "noSaveHandler (w\<lparr>elems := (elems w)(lit ''save-note'' \<mapsto> ?b)\<rparr>)"
    by (rule noSaveHandler_update) simp
  then have n: "noSaveHandler ?w1" by (simp add: noSaveHandler_def)
  have "filter isNoteMutation (requests w') = filter isNoteMutation (requests w0)"
    if "reaches numToString toLocaleString ?w1 w'" for w'
    using reaches_notesUntouched [OF that _ _ n] w by (simp add: notesUntouched_def)
  then show ?thesis
    using w n by (simp add: r textOf_def)
qed

lemma noSaveHandler_page: "noSaveHandler page"
  by (auto simp: noSaveHandler_def page_def handlersOf_def blank_def split: if_splits)

lemma page_save_note: "elems page (lit ''save-note'') = Some blank"
  by (simp add: page_def lit_def)

text \<open>
  The page as loaded, with \<open>initializeApp\<close> throwing, and a click on the save button
  afterwards.
\<close>

theorem initNotes_disabled_witness:
  "db page = None
   \<and> isl (Inl (Failure (lit ''invalid-api-key'')) :: exn + firebaseApp)
   \<and> elems page (lit ''save-note'') = Some blank \<and> subscriptions page = [] \<and> noSaveHandler page
   \<and> thrown (initNotes (worldOf (initFirebase (Inl (Failure (lit ''invalid-api-key''))) (Inr Firestore) page)))
       = None
   \<and> map_option disabled (elems (worldOf (initNotes (worldOf
        (initFirebase (Inl (Failure (lit ''invalid-api-key''))) (Inr Firestore) page)))) (lit ''save-note''))
       = Some True
   \<and> textOf (worldOf (initNotes (worldOf
        (initFirebase (Inl (Failure (lit ''invalid-api-key''))) (Inr Firestore) page)))) (lit ''save-note'')
       = Some (lit ''Notes unavailable'')
   \<and> reaches id plainLocale
        (worldOf (initNotes (worldOf
          (initFirebase (Inl (Failure (lit ''invalid-api-key''))) (Inr Firestore) page))))
        (fire id plainLocale (Click (lit ''save-note'') (Resolved ()))
          (worldOf (initNotes (worldOf
            (initFirebase (Inl (Failure (lit ''invalid-api-key''))) (Inr Firestore) page)))))
   \<and> filter isNoteMutation (requests
        (fire id plainLocale (Click (lit ''save-note'') (Resolved ()))
          (worldOf (initNotes (worldOf
            (initFirebase (Inl (Failure (lit ''invalid-api-key''))) (Inr Firestore) page)))))) = []"
proof -
  have p: "db page = None" "subscriptions page = []" "requests page = []" by (simp_all add: page_def)
  have i: "isl (Inl (Failure (lit ''invalid-api-key'')) :: exn + firebaseApp) \<or> isl (Inr Firestore :: exn + firestore)"
    by simp
  note t = initNotes_disabled [OF p(1) i page_save_note p(2) noSaveHandler_page, of id plainLocale]
  let ?w1 = "worldOf (initNotes (worldOf
          (initFirebase (Inl (Failure (lit ''invalid-api-key''))) (Inr Firestore) page)))"
  have re: "reaches id plainLocale ?w1 (fire id plainLocale (Click (lit ''save-note'') (Resolved ())) ?w1)"
    by (rule reaches_fire) (rule reaches_here)
  from t re have "filter isNoteMutation (requests
        (fire id plainLocale (Click (lit ''save-note'') (Resolved ())) ?w1)) = filter isNoteMutation (requests page)"
    by blast
  with t re p page_save_note noSaveHandler_page show ?thesis by simp
qed

section \<open>Catch boundaries\<close>

lemma thrown_tryCatch:
  "(\<And>e w. thrown (h e w) = None) \<Longrightarrow> thrown (tryCatch r h) = None"
  by (cases r) (simp_all add: tryCatch_def)

lemma initFirebase_returns: "thrown (initFirebase appOutcome dbOutcome w) = None"
  unfolding initFirebase_def by (rule thrown_tryCatch) simp

lemma deleteNoteClick_returns: "thrown (deleteNoteClick noteId outcome w) = None"
  unfolding deleteNoteClick_def by (rule thrown_tryCatch) simp

lemma listUpcomingEvents_returns: "thrown (listUpcomingEvents now toLocaleString outcome w) = None"
  unfolding listUpcomingEvents_def by (rule thrown_tryCatch) simp

lemma initClient_returns:
  "thrown (initClient now toLocaleString initOutcome signedIn listOutcome w) = None"
  unfolding initClient_def by (rule thrown_tryCatch) simp

lemma saveNoteClick_returns:
  "elems w (lit ''note-input'') \<noteq> None \<Longrightarrow> thrown (saveNoteClick notesCol outcome w) = None"
  by (auto simp: saveNoteClick_def Let_def intro!: thrown_tryCatch)

lemma fetchWeather_returns:
  assumes "elems w tempElemId \<noteq> None" and "elems w descElemId \<noteq> None"
  shows "thrown (fetchWeather numToString lat lon tempElemId descElemId outcome w) = None"
proof (cases "fetchWeather_body numToString lat lon tempElemId descElemId outcome w")
  case (Returned w')
  then show ?thesis by (simp add: fetchWeather_def tryCatch_def)
next
  case (Threw e w')
  have same: "elems w' = elems w"
    using Threw assms
    by (auto simp: fetchWeather_body_def Let_def call_def andThen_def setTextContent_def
          split: promise.splits if_splits option.splits body.splits)
  let ?w2 = "consoleError (lit ''Error fetching weather:'') e w'"
  have "elems ?w2 tempElemId \<noteq> None" "elems ?w2 descElemId \<noteq> None"
    using assms same by (simp_all add: consoleError_def)
  from write_two(1) [OF this] fetchWeather_caught [OF Threw] show ?thesis by simp
qed

text \<open>
  C9, for the call sites that have a catch boundary. The store initialisation, the weather fetch, the creation and the
  deletion of a note, the initialisation of the calendar client and the event listing
  each sit inside a catch boundary: however the external call ends, nothing is thrown
  out of them (for the weather fetch and the save handler, given the elements they
  look up are on the page).
\<close>

theorem external_failures_caught:
  "thrown (initFirebase appOutcome dbOutcome w) = None
   \<and> (elems w tempElemId \<noteq> None \<and> elems w descElemId \<noteq> None \<longrightarrow>
        thrown (fetchWeather numToString lat lon tempElemId descElemId fetchOutcome w) = None)
   \<and> (elems w (lit ''note-input'') \<noteq> None \<longrightarrow>
        thrown (saveNoteClick notesCol addOutcome w) = None)
   \<and> thrown (deleteNoteClick noteId deleteOutcome w) = None
   \<and> thrown (initClient now toLocaleString initOutcome signedIn listOutcome w) = None
   \<and> thrown (listUpcomingEvents now toLocaleString listOutcome w) = None"
  by (simp add: initFirebase_returns fetchWeather_returns saveNoteClick_returns
      deleteNoteClick_returns initClient_returns listUpcomingEvents_returns)

lemma pageCalendar_authorize:
  "map_option onclick (elems pageCalendar (lit ''authorize_button'')) = Some (Some HandleAuthClick)"
  "map_option onclick (elems pageCalendar (lit ''signout_button'')) = Some (Some HandleSignoutClick)"
  "map_option disabled (elems pageCalendar (lit ''authorize_button'')) = Some False"
  "map_option clickListeners (elems pageCalendar (lit ''authorize_button'')) = Some []"
  "uncaught pageCalendar = []"
  by (simp_all add: pageCalendar_def initClient_def updateSigninStatus_def setDisplay_def
      clearInnerHTML_def setOnclick_def andThen_def tryCatch_def call_def page_def blank_def lit_def)

text \<open>
  \<open>handleAuthClick\<close> and \<open>handleSignoutClick\<close> have no catch boundary: a rejected
  \<open>signIn\<close> or \<open>signOut\<close> leaves them, and after a click on the authorize button the
  rejection is on the page as an uncaught error.
\<close>

theorem signIn_rejection_counterexample:
  "thrown (handleAuthClick (Rejected (Failure (lit ''popup_closed_by_user''))) pageCalendar)
     = Some (Failure (lit ''popup_closed_by_user''))
   \<and> thrown (handleSignoutClick (Rejected (Failure (lit ''network_error''))) pageCalendar)
     = Some (Failure (lit ''network_error''))
   \<and> uncaught (fire id plainLocale
        (Click (lit ''authorize_button'') (Rejected (Failure (lit ''popup_closed_by_user''))))
        pageCalendar)
     = [Failure (lit ''popup_closed_by_user'')]"
proof -
  from pageCalendar_authorize obtain e where e: "elems pageCalendar (lit ''authorize_button'') = Some e"
    "onclick e = Some HandleAuthClick" "\<not> disabled e" "clickListeners e = []"
    by auto
  show ?thesis
    by (simp add: handleAuthClick_def handleSignoutClick_def fire_def e runHandler_def settle_def
        call_def pageCalendar_authorize(5))
qed

text \<open>Every external call failing, on a page with \<open>Buy milk\<close> typed in.\<close>

theorem external_failures_caught_witness:
  "thrown (initFirebase (Inl (Failure (lit ''invalid-api-key''))) (Inr Firestore)
      (pageTyped (lit ''Buy milk''))) = None
   \<and> elems (pageTyped (lit ''Buy milk'')) (lit ''aarhus-temp'') \<noteq> None
   \<and> elems (pageTyped (lit ''Buy milk'')) (lit ''aarhus-desc'') \<noteq> None
   \<and> thrown (fetchWeather id (lit ''56.1572'') (lit ''10.2107'') (lit ''aarhus-temp'') (lit ''aarhus-desc'')
        (Rejected (Failure (lit ''Failed to fetch''))) (pageTyped (lit ''Buy milk''))) = None
   \<and> elems (pageTyped (lit ''Buy milk'')) (lit ''note-input'') \<noteq> None
   \<and> thrown (saveNoteClick (Collection Firestore (lit ''notes'')) (Rejected (Failure (lit ''unavailable'')))
        (pageTyped (lit ''Buy milk''))) = None
   \<and> thrown (deleteNoteClick (lit ''a1'') (Rejected (Failure (lit ''permission-denied'')))
        (pageTyped (lit ''Buy milk''))) = None
   \<and> thrown (initClient (lit ''2026-01-01T00:00:00.000Z'') plainLocale
        (Rejected (Failure (lit ''idpiframe_initialization_failed''))) False
        (Rejected (Failure (lit ''401''))) (pageTyped (lit ''Buy milk''))) = None
   \<and> thrown (listUpcomingEvents (lit ''2026-01-01T00:00:00.000Z'') plainLocale
        (Rejected (Failure (lit ''401''))) (pageTyped (lit ''Buy milk''))) = None"
proof -
  have a: "elems (pageTyped (lit ''Buy milk'')) (lit ''aarhus-temp'') \<noteq> None"
    "elems (pageTyped (lit ''Buy milk'')) (lit ''aarhus-desc'') \<noteq> None"
    "elems (pageTyped (lit ''Buy milk'')) (lit ''note-input'') \<noteq> None"
    by (simp_all add: pageTyped_def page_def lit_def)
  from external_failures_caught [of "Inl (Failure (lit ''invalid-api-key''))" "Inr Firestore"
      "pageTyped (lit ''Buy milk'')" "lit ''aarhus-temp''" "lit ''aarhus-desc''" id
      "lit ''56.1572''" "lit ''10.2107''" "Rejected (Failure (lit ''Failed to fetch''))"
      "Collection Firestore (lit ''notes'')" "Rejected (Failure (lit ''unavailable''))"
      "lit ''a1''" "Rejected (Failure (lit ''permission-denied''))"
      "lit ''2026-01-01T00:00:00.000Z''" plainLocale
      "Rejected (Failure (lit ''idpiframe_initialization_failed''))" False
      "Rejected (Failure (lit ''401''))"] a
  show ?thesis by simp
qed

end
